theory Spec2Isabelle
  imports Main "HOL-Library.Word"
begin

unbundle bit_operations_syntax

section \<open>The system-property store of libc/system\_properties/system\_properties.cpp\<close>

text \<open>
  The store lives in memory shared between one writer process and any number of
  reader processes. A call of the reader therefore does not see one memory state
  but a succession of them. The embedding makes that explicit: the shared memory
  is a value of type \<open>memory\<close>, a writer call maps a memory to a memory, and a
  reader call receives the list of memory states that its successive accesses to
  shared memory observe (its \<^emph>\<open>trace\<close>). A reader that has used up its trace
  without returning yields \<open>None\<close>: the call has not returned within the
  observed window. A call that runs with no concurrent writer sees the same state
  at every access, a trace \<open>replicate n m\<close>.
\<close>

subsection \<open>Constants and macros\<close>

type_synonym u32 = "32 word"

text \<open>
  Modelled from the spec: the header that defines \<open>PROP_VALUE_MAX\<close> is not among
  the sources. The spec bounds a mutable value at 91 bytes plus the terminator and
  gives the inline value buffer 92 bytes.
\<close>

definition PROP_VALUE_MAX :: nat where
  "PROP_VALUE_MAX = 92"

text \<open>
  Modelled from the spec: the header that defines \<open>PROP_NAME_MAX\<close> is not among
  the sources. The spec bounds a name at 31 bytes plus the terminator.
\<close>

definition PROP_NAME_MAX :: nat where
  "PROP_NAME_MAX = 32"

text \<open>The value of \<open>ETIMEDOUT\<close> in the Linux \<open>errno.h\<close>.\<close>

definition ETIMEDOUT :: int where
  "ETIMEDOUT = 110"

text \<open>\<^verbatim>\<open>#define SERIAL_DIRTY(serial) ((serial)&1)\<close> and
  \<^verbatim>\<open>#define SERIAL_VALUE_LEN(serial) ((serial) >> 24)\<close>.\<close>

definition SERIAL_DIRTY :: "u32 \<Rightarrow> u32" where
  "SERIAL_DIRTY serial = serial AND 1"

definition SERIAL_VALUE_LEN :: "u32 \<Rightarrow> u32" where
  "SERIAL_VALUE_LEN serial = drop_bit 24 serial"

subsection \<open>C strings and the libc routines the store calls\<close>

text \<open>
  A \<open>char*\<close> is modelled by the bytes found from the pointer on, as a \<open>string\<close>.
  The C string it denotes ends at the first NUL byte, or at the end of the list
  (a list with no NUL stands for the bytes before a terminator).
\<close>

definition NUL :: char where
  "NUL = CHR 0x00"

definition c_str :: "string \<Rightarrow> string" where
  "c_str s = takeWhile (\<lambda>c. c \<noteq> NUL) s"

definition strlen :: "string \<Rightarrow> nat" where
  "strlen s = length (c_str s)"

text \<open>\<open>strcmp\<close> and \<open>strncmp\<close> return the difference of the first pair of
  bytes that differ, read as unsigned chars, and 0 when there is none.\<close>

fun bytes_cmp :: "string \<Rightarrow> string \<Rightarrow> int" where
  "bytes_cmp [] [] = 0"
| "bytes_cmp [] (y # ys) = - int (of_char y)"
| "bytes_cmp (x # xs) [] = int (of_char x)"
| "bytes_cmp (x # xs) (y # ys) =
     (if x = y then bytes_cmp xs ys else int (of_char x) - int (of_char y))"

definition strcmp :: "string \<Rightarrow> string \<Rightarrow> int" where
  "strcmp a b = bytes_cmp (c_str a) (c_str b)"

definition strncmp :: "string \<Rightarrow> string \<Rightarrow> nat \<Rightarrow> int" where
  "strncmp a b n = bytes_cmp (take n (c_str a)) (take n (c_str b))"

text \<open>
  Reads and writes outside a buffer are undefined behaviour in C. The model gives
  them a value of their own, as it does for the dereference of a null pointer.
\<close>

datatype fault = NullDereference | BufferOverrun

text \<open>\<open>memcpy(dst, src, n)\<close>: the first \<open>n\<close> bytes of \<open>dst\<close> are replaced by the
  first \<open>n\<close> bytes of \<open>src\<close>.\<close>

definition memcpy :: "string \<Rightarrow> string \<Rightarrow> nat \<Rightarrow> fault + string" where
  "memcpy dst src n =
     (if n \<le> length dst \<and> n \<le> length src then Inr (take n src @ drop n dst)
      else Inl BufferOverrun)"

text \<open>\<open>strlcpy(dst, src, dsize)\<close>: copies at most \<open>dsize - 1\<close> bytes of the C
  string \<open>src\<close> and terminates the copy with NUL (nothing is written when \<open>dsize\<close>
  is 0); returns \<open>strlen(src)\<close>. The model returns the new \<open>dst\<close> with it.\<close>

definition strlcpy :: "string \<Rightarrow> string \<Rightarrow> nat \<Rightarrow> fault + (string \<times> nat)" where
  "strlcpy dst src dsize =
     (if dsize = 0 then Inr (dst, strlen src)
      else
        (let n = min (strlen src) (dsize - 1) in
         if n + 1 \<le> length dst
         then Inr (take n (c_str src) @ NUL # drop (n + 1) dst, strlen src)
         else Inl BufferOverrun))"

text \<open>\<^verbatim>\<open>static bool is_read_only(const char* name)\<close>\<close>

definition is_read_only :: "string \<Rightarrow> bool" where
  "is_read_only name = (strncmp name ''ro.'' 3 = 0)"

subsection \<open>The shared memory\<close>

text \<open>
  A \<open>prop_area*\<close> is the number of the mapping; a \<open>prop_info*\<close> is a mapping
  together with the offset of the record in it.
\<close>

type_synonym pa_ptr = nat
type_synonym pi_ptr = "pa_ptr \<times> nat"

text \<open>
  Modelled from the spec: \<open>prop_info.h\<close> is not among the sources. By the
  spec's data model a PropInfo has the mutable fields \<open>serial\<close> (a 32-bit word:
  low bit dirty, bits 24 to 31 the length of the value) and \<open>value\<close> (the inline
  buffer of \<open>PROP_VALUE_MAX\<close> bytes), and the immutable fields \<open>name\<close>, the long
  flag read by \<open>is_long()\<close> and the out-of-line bytes that \<open>long_value()\<close>
  points to. (\<open>value\<close> is a keyword of Isabelle, so the fields carry the prefix
  \<open>pi_\<close>.)
\<close>

record prop_info =
  pi_serial :: u32
  pi_value :: string
  pi_name :: string
  pi_is_long :: bool
  pi_long_value :: string

text \<open>
  Modelled from the spec: \<open>prop_area.h\<close> is not among the sources. By the spec
  a PropArea has a 32-bit area-serial (\<open>serial()\<close>), a dirty-backup buffer the
  size of one value (\<open>dirty_backup_area()\<close>), and a slab of fixed size that grows
  by advancing a watermark.
\<close>

record prop_area =
  pa_serial :: u32
  pa_dirty_backup_area :: string
  pa_bytes_used :: nat
  pa_data_size :: nat

text \<open>The shared memory: the PropInfo at each pointer and the PropArea at each mapping.\<close>

record memory =
  infos :: "pi_ptr \<Rightarrow> prop_info"
  areas :: "pa_ptr \<Rightarrow> prop_area"

text \<open>The stores of the code, one definition for each place it writes to.\<close>

definition store_serial :: "memory \<Rightarrow> pi_ptr \<Rightarrow> u32 \<Rightarrow> memory" where
  "store_serial m pi s = m\<lparr>infos := (infos m)(pi := (infos m pi)\<lparr>pi_serial := s\<rparr>)\<rparr>"

definition store_value :: "memory \<Rightarrow> pi_ptr \<Rightarrow> string \<Rightarrow> memory" where
  "store_value m pi v = m\<lparr>infos := (infos m)(pi := (infos m pi)\<lparr>pi_value := v\<rparr>)\<rparr>"

definition store_dirty_backup :: "memory \<Rightarrow> pa_ptr \<Rightarrow> string \<Rightarrow> memory" where
  "store_dirty_backup m pa b =
     m\<lparr>areas := (areas m)(pa := (areas m pa)\<lparr>pa_dirty_backup_area := b\<rparr>)\<rparr>"

definition store_area_serial :: "memory \<Rightarrow> pa_ptr \<Rightarrow> u32 \<Rightarrow> memory" where
  "store_area_serial m pa s = m\<lparr>areas := (areas m)(pa := (areas m pa)\<lparr>pa_serial := s\<rparr>)\<rparr>"

subsection \<open>The store object\<close>

text \<open>
  Modelled from the spec: the Contexts classes are not among the sources. The
  store uses the router through two of its methods, which are the fields of the
  record: \<open>GetPropAreaForName\<close>, null (here \<open>None\<close>) when no context claims the
  name, and \<open>GetSerialPropArea\<close>, the distinguished serial area or null.
\<close>

record Contexts =
  GetPropAreaForName :: "string \<Rightarrow> pa_ptr option"
  GetSerialPropArea :: "pa_ptr option"

text \<open>
  The members \<open>initialized_\<close> and \<open>contexts_\<close> of the class, without the
  trailing underscore. The router object is held by value.
\<close>

record SystemProperties =
  initialized :: bool
  contexts :: Contexts

subsection \<open>ReadMutablePropertyValue\<close>

text \<open>
  The trace holds one memory state for each access of the reader, in order: the
  first load of the serial, then for every round of the loop the state the
  \<open>memcpy\<close> reads and the state the reload of the serial reads. The function
  returns the serial, the caller's buffer and the rest of the trace.

  \<open>copy_value\<close> is the \<open>if (SERIAL_DIRTY(serial)) ... else ...\<close> statement of the
  loop body, with \<open>len = SERIAL_VALUE_LEN(serial)\<close>; the router's area is
  dereferenced with no null check. \<open>read_loop\<close> is the \<open>for (;;)\<close> loop, entered
  with the serial last loaded.
\<close>

definition copy_value ::
  "Contexts \<Rightarrow> pi_ptr \<Rightarrow> u32 \<Rightarrow> string \<Rightarrow> memory \<Rightarrow> fault + string" where
  "copy_value ctx pi serial buf m =
     (let len = unat (SERIAL_VALUE_LEN serial) in
      if SERIAL_DIRTY serial \<noteq> 0
      then (case GetPropAreaForName ctx (pi_name (infos m pi)) of
              None \<Rightarrow> Inl NullDereference
            | Some pa \<Rightarrow> memcpy buf (pa_dirty_backup_area (areas m pa)) (len + 1))
      else memcpy buf (pi_value (infos m pi)) (len + 1))"

fun read_loop ::
  "Contexts \<Rightarrow> pi_ptr \<Rightarrow> u32 \<Rightarrow> string \<Rightarrow> memory list \<Rightarrow>
   (fault + u32 \<times> string \<times> memory list) option" where
  "read_loop ctx pi new_serial buf [] = None"
| "read_loop ctx pi new_serial buf [mc] =
     (let serial = new_serial in
      case copy_value ctx pi serial buf mc of
        Inl e \<Rightarrow> Some (Inl e)
      | Inr buf' \<Rightarrow> None)"
| "read_loop ctx pi new_serial buf (mc # ml # ms) =
     (let serial = new_serial in
      case copy_value ctx pi serial buf mc of
        Inl e \<Rightarrow> Some (Inl e)
      | Inr buf' \<Rightarrow>
          (let new_serial = pi_serial (infos ml pi) in
           if serial = new_serial then Some (Inr (serial, buf', ms))
           else read_loop ctx pi new_serial buf' ms))"

definition ReadMutablePropertyValue ::
  "SystemProperties \<Rightarrow> pi_ptr \<Rightarrow> string \<Rightarrow> memory list \<Rightarrow>
   (fault + u32 \<times> string \<times> memory list) option" where
  "ReadMutablePropertyValue sp pi buf tr =
     (case tr of
        [] \<Rightarrow> None
      | m0 # ms \<Rightarrow> read_loop (contexts sp) pi (pi_serial (infos m0 pi)) buf ms)"

subsection \<open>Read\<close>

text \<open>
  The caller's \<open>name\<close> buffer may be null (\<open>None\<close>). The two log messages of the
  function write nothing the caller can see and are left out. The name is read
  from the state that follows the reader's loop in the trace. The result is the
  \<open>int\<close> returned, the name buffer and the value buffer.
\<close>

definition Read ::
  "SystemProperties \<Rightarrow> pi_ptr \<Rightarrow> string option \<Rightarrow> string \<Rightarrow> memory list \<Rightarrow>
   (fault + int \<times> string option \<times> string) option" where
  "Read sp pi name buf tr =
     (case ReadMutablePropertyValue sp pi buf tr of
        None \<Rightarrow> None
      | Some (Inl e) \<Rightarrow> Some (Inl e)
      | Some (Inr (serial, buf', rest)) \<Rightarrow>
          (case name of
             None \<Rightarrow> Some (Inr (sint (SERIAL_VALUE_LEN serial), None, buf'))
           | Some nb \<Rightarrow>
               (case rest of
                  [] \<Rightarrow> None
                | m # _ \<Rightarrow>
                    (case strlcpy nb (pi_name (infos m pi)) PROP_NAME_MAX of
                       Inl e \<Rightarrow> Some (Inl e)
                     | Inr (nb', namelen) \<Rightarrow>
                         Some (Inr (sint (SERIAL_VALUE_LEN serial), Some nb', buf'))))))"

subsection \<open>ReadCallback\<close>

text \<open>
  The lambda \<open>callback\<close> of the function. Its result is the triple of name, value
  and serial that it hands to the caller's \<open>callback2\<close> (the cookie is passed
  through untouched and left out); \<open>uid\<close> is what \<open>getuid()\<close> returns.
\<close>

definition callback :: "int \<Rightarrow> string \<Rightarrow> string \<Rightarrow> u32 \<Rightarrow> string \<times> string \<times> u32" where
  "callback uid name val serial =
     (if (uid \<ge> 10000 \<and> uid \<le> 19999) \<or> (uid \<ge> 90000 \<and> uid \<le> 99999)
      then
        (if strcmp name ''init.svc.adbd'' = 0 then (name, ''stopped'', serial)
         else if strcmp name ''sys.usb.configfs'' = 0 then (name, ''0'', serial)
         else if strcmp name ''persist.sys.usb.config'' = 0 \<or>
                 strcmp name ''sys.usb.config'' = 0 \<or>
                 strcmp name ''sys.usb.state'' = 0 then (name, ''none'', serial)
         else (name, val, serial))
      else (name, val, serial))"

text \<open>
  \<open>value_buf\<close> is the local buffer of \<open>PROP_VALUE_MAX\<close> bytes, with whatever the
  stack holds. The first state of the trace is the one in which the name is
  tested and, for a read-only property, the serial and the value are read.
\<close>

definition ReadCallback ::
  "SystemProperties \<Rightarrow> int \<Rightarrow> pi_ptr \<Rightarrow> string \<Rightarrow> memory list \<Rightarrow>
   (fault + string \<times> string \<times> u32) option" where
  "ReadCallback sp uid pi value_buf tr =
     (case tr of
        [] \<Rightarrow> None
      | m # rest \<Rightarrow>
          if is_read_only (pi_name (infos m pi))
          then
            (let serial = pi_serial (infos m pi) in
             if pi_is_long (infos m pi)
             then Some (Inr (callback uid (pi_name (infos m pi)) (pi_long_value (infos m pi)) serial))
             else Some (Inr (callback uid (pi_name (infos m pi)) (pi_value (infos m pi)) serial)))
          else
            (case ReadMutablePropertyValue sp pi value_buf rest of
               None \<Rightarrow> None
             | Some (Inl e) \<Rightarrow> Some (Inl e)
             | Some (Inr (serial, buf', _)) \<Rightarrow>
                 Some (Inr (callback uid (pi_name (infos m pi)) buf' serial))))"

subsection \<open>Update\<close>

text \<open>
  The writer is alone (the code relies on a single mutator), so a call maps the
  memory it finds to the memory it leaves, store after store in the order of the
  source. The fences and the futex wakes change no memory. The result is the
  \<open>int\<close> returned and the memory.
\<close>

definition Update ::
  "SystemProperties \<Rightarrow> memory \<Rightarrow> pi_ptr \<Rightarrow> string \<Rightarrow> u32 \<Rightarrow> fault + int \<times> memory" where
  "Update sp m pi val len =
     (if unat len \<ge> PROP_VALUE_MAX then Inr (- 1, m)
      else if \<not> initialized sp then Inr (- 1, m)
      else
        (case GetSerialPropArea (contexts sp) of
           None \<Rightarrow> Inr (- 1, m)
         | Some serial_pa \<Rightarrow>
             (case GetPropAreaForName (contexts sp) (pi_name (infos m pi)) of
                None \<Rightarrow> Inr (- 1, m)
              | Some pa \<Rightarrow>
                  (let serial = pi_serial (infos m pi);
                       old_len = unat (SERIAL_VALUE_LEN serial)
                   in
                   case memcpy (pa_dirty_backup_area (areas m pa)) (pi_value (infos m pi))
                          (old_len + 1) of
                     Inl e \<Rightarrow> Inl e
                   | Inr backup \<Rightarrow>
                       (let m = store_dirty_backup m pa backup;
                            serial = serial OR 1;
                            m = store_serial m pi serial
                        in
                        case strlcpy (pi_value (infos m pi)) val (unat len + 1) of
                          Inl e \<Rightarrow> Inl e
                        | Inr (v, _) \<Rightarrow>
                            (let m = store_value m pi v;
                                 m = store_serial m pi
                                       (push_bit 24 len OR ((serial + 1) AND 0xffffff));
                                 m = store_area_serial m serial_pa
                                       (pa_serial (areas m serial_pa) + 1)
                             in Inr (0, m)))))))"

subsection \<open>Add\<close>

text \<open>
  Modelled from the spec: the size of the record that \<open>prop_area::add\<close>
  allocates; the function is not among the sources. The spec's record layout is a
  32-bit serial, the 92-byte inline value and the 32-byte name; a long value is
  stored out of line in the same area.
\<close>

definition record_size :: "u32 \<Rightarrow> nat" where
  "record_size valuelen =
     4 + PROP_VALUE_MAX + PROP_NAME_MAX +
     (if unat valuelen \<ge> PROP_VALUE_MAX then unat valuelen + 1 else 0)"

text \<open>
  Modelled from the spec: the PropInfo that \<open>prop_area::add\<close> creates; the
  function is not among the sources. By the spec its serial is \<open>len << 24\<close> and
  the value is written with its terminator.
\<close>

definition new_prop_info :: "string \<Rightarrow> u32 \<Rightarrow> string \<Rightarrow> u32 \<Rightarrow> prop_info" where
  "new_prop_info name namelen val valuelen =
     \<lparr>pi_serial = push_bit 24 valuelen,
      pi_value =
        (if unat valuelen \<ge> PROP_VALUE_MAX then replicate PROP_VALUE_MAX NUL
         else take (unat valuelen) val @ replicate (PROP_VALUE_MAX - unat valuelen) NUL),
      pi_name = take (unat namelen) name,
      pi_is_long = (unat valuelen \<ge> PROP_VALUE_MAX),
      pi_long_value = (if unat valuelen \<ge> PROP_VALUE_MAX then take (unat valuelen) val else [])\<rparr>"

text \<open>
  Modelled from the spec: \<open>prop_area::add\<close> is not among the sources. By the
  spec it creates the PropInfo at the watermark of the slab and advances the
  watermark, and fails when the area cannot accommodate the record within its
  fixed size. The radix index over the names is not modelled. The result is the
  \<open>bool\<close> returned and the memory.
\<close>

definition prop_area_add ::
  "memory \<Rightarrow> pa_ptr \<Rightarrow> string \<Rightarrow> u32 \<Rightarrow> string \<Rightarrow> u32 \<Rightarrow> bool \<times> memory" where
  "prop_area_add m pa name namelen val valuelen =
     (let a = areas m pa in
      if pa_bytes_used a + record_size valuelen \<le> pa_data_size a
      then
        (True,
         m\<lparr>infos := (infos m)((pa, pa_bytes_used a) := new_prop_info name namelen val valuelen),
           areas := (areas m)(pa := a\<lparr>pa_bytes_used := pa_bytes_used a + record_size valuelen\<rparr>)\<rparr>)
      else (False, m))"

text \<open>\<open>SystemProperties::Add\<close>. The result is the \<open>int\<close> returned and the memory.\<close>

definition Add ::
  "SystemProperties \<Rightarrow> memory \<Rightarrow> string \<Rightarrow> u32 \<Rightarrow> string \<Rightarrow> u32 \<Rightarrow> int \<times> memory" where
  "Add sp m name namelen val valuelen =
     (if unat valuelen \<ge> PROP_VALUE_MAX \<and> \<not> is_read_only name then (- 1, m)
      else if namelen < 1 then (- 1, m)
      else if \<not> initialized sp then (- 1, m)
      else
        (case GetSerialPropArea (contexts sp) of
           None \<Rightarrow> (- 1, m)
         | Some serial_pa \<Rightarrow>
             (case GetPropAreaForName (contexts sp) name of
                None \<Rightarrow> (- 1, m)
              | Some pa \<Rightarrow>
                  (case prop_area_add m pa name namelen val valuelen of
                     (ret, m) \<Rightarrow>
                       if \<not> ret then (- 1, m)
                       else
                         (0, store_area_serial m serial_pa
                               (pa_serial (areas m serial_pa) + 1))))))"

subsection \<open>Sequences of store operations\<close>

datatype store_op =
  OpAdd string u32 string u32
| OpUpdate pi_ptr string u32

fun apply_op :: "SystemProperties \<Rightarrow> memory \<Rightarrow> store_op \<Rightarrow> fault + int \<times> memory" where
  "apply_op sp m (OpAdd name namelen val valuelen) = Inr (Add sp m name namelen val valuelen)"
| "apply_op sp m (OpUpdate pi val len) = Update sp m pi val len"

text \<open>The returned codes of the operations, in order, and the final memory.\<close>

fun run_ops :: "SystemProperties \<Rightarrow> memory \<Rightarrow> store_op list \<Rightarrow> fault + int list \<times> memory" where
  "run_ops sp m [] = Inr ([], m)"
| "run_ops sp m (x # xs) =
     (case apply_op sp m x of
        Inl e \<Rightarrow> Inl e
      | Inr (r, m') \<Rightarrow>
          (case run_ops sp m' xs of
             Inl e \<Rightarrow> Inl e
           | Inr (rs, m'') \<Rightarrow> Inr (r # rs, m'')))"

subsection \<open>Wait\<close>

text \<open>
  \<open>serial_ptr\<close> points either to the serial of an area or to the serial of a
  PropInfo. What \<open>__futex_wait\<close> returns depends on the kernel and on the other
  processes: the call receives, for each round of its loop, the code the futex
  returns and the memory state that the following load observes. The timeout only
  reaches the futex and is not a parameter of the model. \<open>new_serial_ptr\<close> is the
  content of the caller's variable; the result is the \<open>bool\<close> returned and that
  content at the return.
\<close>

datatype serial_ref = AreaSerial pa_ptr | InfoSerial pi_ptr

fun load_serial :: "memory \<Rightarrow> serial_ref \<Rightarrow> u32" where
  "load_serial m (AreaSerial pa) = pa_serial (areas m pa)"
| "load_serial m (InfoSerial pi) = pi_serial (infos m pi)"

text \<open>The conversion of an \<open>int\<close> to \<open>bool\<close>, for the \<open>return -1\<close> of \<open>Wait\<close>.\<close>

definition c_bool :: "int \<Rightarrow> bool" where
  "c_bool i = (i \<noteq> 0)"

fun wait_loop ::
  "serial_ref \<Rightarrow> u32 \<Rightarrow> u32 \<Rightarrow> (int \<times> memory) list \<Rightarrow> (bool \<times> u32) option" where
  "wait_loop serial_ptr old_serial new_serial_ptr [] = None"
| "wait_loop serial_ptr old_serial new_serial_ptr ((rc, m) # evs) =
     (if rc \<noteq> 0 \<and> rc = - ETIMEDOUT then Some (False, new_serial_ptr)
      else
        (let new_serial = load_serial m serial_ptr in
         if new_serial = old_serial then wait_loop serial_ptr old_serial new_serial_ptr evs
         else Some (True, new_serial)))"

definition Wait ::
  "SystemProperties \<Rightarrow> pi_ptr option \<Rightarrow> u32 \<Rightarrow> u32 \<Rightarrow> (int \<times> memory) list \<Rightarrow>
   (bool \<times> u32) option" where
  "Wait sp pi old_serial new_serial_ptr evs =
     (case pi of
        None \<Rightarrow>
          if \<not> initialized sp then Some (c_bool (- 1), new_serial_ptr)
          else
            (case GetSerialPropArea (contexts sp) of
               None \<Rightarrow> Some (c_bool (- 1), new_serial_ptr)
             | Some serial_pa \<Rightarrow>
                 wait_loop (AreaSerial serial_pa) old_serial new_serial_ptr evs)
      | Some p \<Rightarrow> wait_loop (InfoSerial p) old_serial new_serial_ptr evs)"

text \<open>\<open>WaitAny\<close> returns its local \<open>new_serial\<close>, which starts uninitialised
  (\<open>junk\<close>).\<close>

definition WaitAny :: "SystemProperties \<Rightarrow> u32 \<Rightarrow> u32 \<Rightarrow> (int \<times> memory) list \<Rightarrow> u32 option" where
  "WaitAny sp old_serial junk evs = map_option snd (Wait sp None old_serial junk evs)"

subsection \<open>A small store, for evaluating the definitions\<close>

text \<open>
  One mapping, number 0, which is also the serial area, and one property
  \<open>net.dns1\<close> at offset 0 with the value \<open>8.8.8.8\<close>. The router \<open>ex_contexts\<close>
  sends every name to the mapping; \<open>ex_no_route\<close> claims no name.
\<close>

definition ex_pi :: pi_ptr where
  "ex_pi = (0, 0)"

definition ex_info :: prop_info where
  "ex_info =
     \<lparr>pi_serial = 0x07000000,
      pi_value = ''8.8.8.8'' @ replicate 85 NUL,
      pi_name = ''net.dns1'',
      pi_is_long = False,
      pi_long_value = []\<rparr>"

definition ex_area :: prop_area where
  "ex_area =
     \<lparr>pa_serial = 7,
      pa_dirty_backup_area = replicate 92 NUL,
      pa_bytes_used = 128,
      pa_data_size = 1024\<rparr>"

definition ex_memory :: memory where
  "ex_memory = \<lparr>infos = (\<lambda>_. ex_info), areas = (\<lambda>_. ex_area)\<rparr>"

definition ex_contexts :: Contexts where
  "ex_contexts = \<lparr>GetPropAreaForName = (\<lambda>_. Some 0), GetSerialPropArea = Some 0\<rparr>"

definition ex_no_route :: Contexts where
  "ex_no_route = \<lparr>GetPropAreaForName = (\<lambda>_. None), GetSerialPropArea = Some 0\<rparr>"

definition ex_store :: SystemProperties where
  "ex_store = \<lparr>initialized = True, contexts = ex_contexts\<rparr>"

definition ex_uninitialized :: SystemProperties where
  "ex_uninitialized = \<lparr>initialized = False, contexts = ex_contexts\<rparr>"

text \<open>
  The memory as \<open>Update\<close> leaves it between its two stores to the serial: the
  old value is in the dirty-backup buffer and the dirty bit is set.
\<close>

definition ex_dirty :: memory where
  "ex_dirty =
     store_serial (store_dirty_backup ex_memory 0 (pi_value (infos ex_memory ex_pi))) ex_pi
       (pi_serial (infos ex_memory ex_pi) OR 1)"

text \<open>
  The memory after the next store of that \<open>Update\<close>, the copy of the new value
  \<open>hello\<close> into the inline buffer: the serial is still dirty, and the backup and
  the inline buffer now differ.
\<close>

definition ex_writing :: memory where
  "ex_writing =
     store_value ex_dirty ex_pi (''hello'' @ NUL # drop 6 (pi_value (infos ex_dirty ex_pi)))"

text \<open>The memory when that \<open>Update\<close> has returned.\<close>

definition ex_updated :: memory where
  "ex_updated = store_area_serial (store_serial ex_writing ex_pi 0x05000002) 0 8"

text \<open>A read-only property \<open>ro.build.id\<close> with the value \<open>ABC\<close>, in the same mapping.\<close>

definition ex_ro_pi :: pi_ptr where
  "ex_ro_pi = (0, 128)"

definition ex_ro_info :: prop_info where
  "ex_ro_info =
     \<lparr>pi_serial = 0x03000000,
      pi_value = ''ABC'' @ replicate 89 NUL,
      pi_name = ''ro.build.id'',
      pi_is_long = False,
      pi_long_value = []\<rparr>"

definition ex_ro_memory :: memory where
  "ex_ro_memory = ex_memory\<lparr>infos := (infos ex_memory)(ex_ro_pi := ex_ro_info)\<rparr>"

text \<open>A router with no serial area.\<close>

definition ex_no_serial_area :: Contexts where
  "ex_no_serial_area = \<lparr>GetPropAreaForName = (\<lambda>_. Some 0), GetSerialPropArea = None\<rparr>"

text \<open>The area-serial at the largest 32-bit value.\<close>

definition ex_wrap_memory :: memory where
  "ex_wrap_memory = store_area_serial ex_memory 0 0xFFFFFFFF"

text \<open>The property at \<open>ex_pi\<close> renamed to \<open>init.svc.adbd\<close>, with the value \<open>running\<close>.\<close>

definition ex_adbd_memory :: memory where
  "ex_adbd_memory =
     ex_memory\<lparr>infos := (infos ex_memory)
       (ex_pi := ex_info\<lparr>pi_name := ''init.svc.adbd'', pi_value := ''running'' @ replicate 85 NUL\<rparr>)\<rparr>"

section \<open>Auxiliary facts\<close>

subsection \<open>Unfolding the examples and the memory operations\<close>

lemmas ex_defs = ex_dirty_def ex_store_def ex_contexts_def ex_memory_def ex_info_def ex_area_def
  ex_pi_def ex_no_route_def ex_uninitialized_def

lemmas ex_writer_defs = ex_writing_def ex_updated_def

lemmas ex_ro_defs = ex_ro_pi_def ex_ro_info_def ex_ro_memory_def

lemmas store_defs = store_serial_def store_dirty_backup_def store_value_def store_area_serial_def

lemmas op_defs = store_defs copy_value_def memcpy_def strlcpy_def strlen_def c_str_def NUL_def
  SERIAL_DIRTY_def SERIAL_VALUE_LEN_def PROP_VALUE_MAX_def PROP_NAME_MAX_def

lemmas add_defs = Add_def prop_area_add_def record_size_def new_prop_info_def is_read_only_def
  strncmp_def

subsection \<open>The serial word\<close>

lemma of_char_eq_0_iff: "(of_char c :: nat) = 0 \<longleftrightarrow> c = NUL"
proof -
  have "(of_char c :: nat) = of_char NUL \<longleftrightarrow> c = NUL" by (rule of_char_eq_iff)
  then show ?thesis by (simp add: NUL_def)
qed

lemma mask24: "(0xffffff :: u32) = mask 24"
  by (simp add: mask_eq_exp_minus_1)

lemma drop_low: "drop_bit 24 ((x :: u32) AND 0xffffff) = 0"
  unfolding mask24 
  by (rule bit_word_eqI) (auto simp add: bit_simps)

lemma drop_push: "unat (len :: u32) < 256 \<Longrightarrow> drop_bit 24 (push_bit 24 len) = len"
proof (rule bit_word_eqI)
  fix n assume a: "unat len < 256" and n: "n < LENGTH(32)"
  have "len < 2 ^ 8" using a by (simp add: word_less_nat_alt)
  then have hi: "\<And>k. bit len k \<Longrightarrow> k < 8"
    by (metis bit_take_bit_iff less_mask_eq take_bit_eq_mask )
  show "bit (drop_bit 24 (push_bit 24 len)) n = bit len n"
    using hi[of n] by (auto simp add: bit_simps)
qed

lemma serial_value_len_final:
  "unat (len :: u32) < 256 \<Longrightarrow> SERIAL_VALUE_LEN (push_bit 24 len OR (x AND 0xffffff)) = len"
  by (simp only: SERIAL_VALUE_LEN_def drop_bit_or drop_low drop_push or.right_neutral)

lemma serial_dirty_final:
  "SERIAL_DIRTY (push_bit 24 (len :: u32) OR (((s OR 1) + 1) AND 0xffffff)) = 0"
proof -
  have "odd (s OR 1)" by (simp add: even_or_iff)
  then have "even ((s OR 1) + 1)" by simp
  then have "even (push_bit 24 len OR (((s OR 1) + 1) AND 0xffffff))"
    by (simp add: even_or_iff even_and_iff)
  then show ?thesis
    by (simp add: SERIAL_DIRTY_def and_one_eq flip: even_iff_mod_2_eq_zero)
qed

lemma value_len_lt: "unat (SERIAL_VALUE_LEN s) < 256"
proof -
  have "unat s < 2 ^ 32" using unsigned_less [of s] by simp
  then have "unat s div 2 ^ 24 < 256" by simp
  then have "drop_bit 24 (unat s) < 256" by (simp only: drop_bit_eq_div)
  then show ?thesis
    by (simp only: SERIAL_VALUE_LEN_def unat_drop_bit_eq)
qed

lemma signed_take_bit_small: "0 \<le> (k::int) \<Longrightarrow> k < 256 \<Longrightarrow> signed_take_bit 31 k = k"
  by (rule signed_take_bit_int_eq_self) simp_all

lemma sint_value_len: "sint (SERIAL_VALUE_LEN s) = int (unat (SERIAL_VALUE_LEN s))"
proof -
  have "int (unat (SERIAL_VALUE_LEN s)) < 256" using value_len_lt [of s] by linarith
  then have "signed_take_bit 31 (int (unat (SERIAL_VALUE_LEN s))) = int (unat (SERIAL_VALUE_LEN s))"
    by (intro signed_take_bit_small) simp_all
  then show ?thesis by (simp add: sint_uint)
qed

subsection \<open>String comparison\<close>

lemma bytes_cmp_eq_0_iff:
  "NUL \<notin> set xs \<Longrightarrow> NUL \<notin> set ys \<Longrightarrow> bytes_cmp xs ys = 0 \<longleftrightarrow> xs = ys"
proof (induction xs ys rule: bytes_cmp.induct)
  case (4 x xs y ys)
  have "int (of_char x) = int (of_char y) \<longleftrightarrow> x = y" by simp
  with 4 show ?case by auto
qed (auto simp: of_char_eq_0_iff)

lemma NUL_notin_c_str: "NUL \<notin> set (c_str s)"
  unfolding c_str_def by (auto dest: set_takeWhileD)

lemma NUL_notin_take_c_str: "NUL \<notin> set (take n (c_str s))"
  using NUL_notin_c_str [of s] by (auto dest: in_set_takeD)

lemma strcmp_eq_0_iff: "strcmp a b = 0 \<longleftrightarrow> c_str a = c_str b"
  unfolding strcmp_def by (rule bytes_cmp_eq_0_iff) (rule NUL_notin_c_str)+

lemma strncmp_eq_0_iff: "strncmp a b n = 0 \<longleftrightarrow> take n (c_str a) = take n (c_str b)"
  unfolding strncmp_def by (rule bytes_cmp_eq_0_iff) (rule NUL_notin_take_c_str)+

lemma is_read_only_iff: "is_read_only name \<longleftrightarrow> take 3 (c_str name) = ''ro.''"
  by (simp add: is_read_only_def strncmp_eq_0_iff c_str_def NUL_def)

subsection \<open>The loop of the reader\<close>

lemma memcpy_Inr:
  "memcpy dst src n = Inr r \<longleftrightarrow> n \<le> length dst \<and> n \<le> length src \<and> r = take n src @ drop n dst"
  by (auto simp: memcpy_def)

lemma memcpy_length: "memcpy dst src n = Inr r \<Longrightarrow> length r = length dst"
  by (auto simp: memcpy_Inr)

lemma copy_value_length: "copy_value ctx pi s buf m = Inr buf' \<Longrightarrow> length buf' = length buf"
  by (auto simp: copy_value_def Let_def memcpy_length split: if_splits option.splits)

text \<open>
  The round that returns: the copy and the reload stand right before the rest of
  the trace, and the buffer it copies into is the caller's when it is the first
  round.
\<close>

lemma read_loop_returns:
  "read_loop ctx pi s0 buf ms = Some (Inr (s, buf', rest)) \<Longrightarrow>
   \<exists>pre mc ml prev.
     ms = pre @ mc # ml # rest \<and> length prev = length buf \<and>
     copy_value ctx pi s prev mc = Inr buf' \<and> pi_serial (infos ml pi) = s \<and>
     (if pre = [] then s = s0 \<and> prev = buf else pi_serial (infos (last pre) pi) = s)"
proof (induction ctx pi s0 buf ms rule: read_loop.induct)
  case (1 ctx pi new_serial buf)
  then show ?case by simp
next
  case (2 ctx pi new_serial buf mc)
  then show ?case by (simp split: sum.splits)
next
  case (3 ctx pi new_serial buf mc ml ms)
  from "3.prems" obtain b where b: "copy_value ctx pi new_serial buf mc = Inr b"
    by (auto split: sum.splits)
  show ?case
  proof (cases "new_serial = pi_serial (infos ml pi)")
    case True
    with "3.prems" b have "s = new_serial" "buf' = b" "rest = ms" by simp_all
    with b True have
      "mc # ml # ms = [] @ mc # ml # rest \<and> length buf = length buf \<and>
       copy_value ctx pi s buf mc = Inr buf' \<and> pi_serial (infos ml pi) = s \<and>
       (if ([]::memory list) = [] then s = new_serial \<and> buf = buf
        else pi_serial (infos (last []) pi) = s)"
      by simp
    then show ?thesis by blast
  next
    case False
    with "3.prems" b have
      "read_loop ctx pi (pi_serial (infos ml pi)) b ms = Some (Inr (s, buf', rest))"
      by simp
    from "3.IH" [OF refl b refl False this] obtain pre mc' ml' prev where
      *: "ms = pre @ mc' # ml' # rest" "length prev = length b"
         "copy_value ctx pi s prev mc' = Inr buf'" "pi_serial (infos ml' pi) = s"
         "if pre = [] then s = pi_serial (infos ml pi) \<and> prev = b
          else pi_serial (infos (last pre) pi) = s"
      by blast
    have "mc # ml # ms = (mc # ml # pre) @ mc' # ml' # rest" using * by simp
    moreover have "length prev = length buf" using * copy_value_length [OF b] by simp
    moreover have "pi_serial (infos (last (mc # ml # pre)) pi) = s"
      using *(5) by (auto split: if_splits)
    ultimately show ?thesis using *(3,4) by (metis list.distinct(1))
  qed
qed

lemma ReadMutablePropertyValue_returns:
  assumes "ReadMutablePropertyValue sp pi buf tr = Some (Inr (s, buf', rest))"
  shows "\<exists>pre mb mc ml prev.
     tr = pre @ mb # mc # ml # rest \<and> length prev = length buf \<and>
     (pre = [] \<longrightarrow> prev = buf) \<and>
     pi_serial (infos mb pi) = s \<and>
     copy_value (contexts sp) pi s prev mc = Inr buf' \<and> pi_serial (infos ml pi) = s"
proof -
  from assms obtain m0 ms where tr: "tr = m0 # ms"
    and loop: "read_loop (contexts sp) pi (pi_serial (infos m0 pi)) buf ms = Some (Inr (s, buf', rest))"
    by (auto simp: ReadMutablePropertyValue_def split: list.splits)
  from read_loop_returns [OF loop] obtain pre mc ml prev where
    *: "ms = pre @ mc # ml # rest" "length prev = length buf"
       "copy_value (contexts sp) pi s prev mc = Inr buf'" "pi_serial (infos ml pi) = s"
       "if pre = [] then s = pi_serial (infos m0 pi) \<and> prev = buf
        else pi_serial (infos (last pre) pi) = s"
    by blast
  have "tr = butlast (m0 # pre) @ last (m0 # pre) # mc # ml # rest"
    using tr *(1) by (simp del: butlast.simps last.simps add: append_butlast_last_id)
  moreover have "pi_serial (infos (last (m0 # pre)) pi) = s"
    using *(5) by (auto split: if_splits)
  moreover have "butlast (m0 # pre) = [] \<longrightarrow> prev = buf"
    using *(5) by (auto split: if_splits)
  ultimately show ?thesis using *(2,3,4) by blast
qed

lemma replicate_85: "replicate 85 x = x # replicate 84 x"
proof -
  have "(85 :: nat) = Suc 84" by simp
  then show ?thesis by (simp only: replicate_Suc)
qed

lemma and_one_cases: "(s :: u32) AND 1 = 0 \<or> s AND 1 = 1"
  by (simp add: and_one_eq) (metis even_iff_mod_2_eq_zero odd_iff_mod_2_eq_one)

lemma copy_value_clean:
  "SERIAL_DIRTY s = 0 \<Longrightarrow> copy_value ctx pi s buf m = copy_value ctx' pi s buf m"
  by (simp add: copy_value_def)

lemma copy_value_NullDereference:
  "copy_value ctx pi s buf m = Inl NullDereference \<longleftrightarrow>
   SERIAL_DIRTY s \<noteq> 0 \<and> GetPropAreaForName ctx (pi_name (infos m pi)) = None"
  by (auto simp: copy_value_def Let_def memcpy_def split: option.splits)

lemma read_loop_clean:
  "SERIAL_DIRTY s0 = 0 \<Longrightarrow> \<forall>m\<in>set ms. SERIAL_DIRTY (pi_serial (infos m pi)) = 0 \<Longrightarrow>
   read_loop ctx pi s0 buf ms = read_loop ctx' pi s0 buf ms"
proof (induction ctx pi s0 buf ms rule: read_loop.induct)
  case (1 ctx pi new_serial buf)
  then show ?case by simp
next
  case (2 ctx pi new_serial buf mc)
  then show ?case by (simp add: copy_value_clean [of new_serial ctx _ _ _ ctx'])
next
  case (3 ctx pi new_serial buf mc ml ms)
  have eq: "copy_value ctx pi new_serial buf mc = copy_value ctx' pi new_serial buf mc"
    using "3.prems"(1) by (rule copy_value_clean)
  show ?case
  proof (cases "copy_value ctx pi new_serial buf mc")
    case (Inl e)
    then show ?thesis using eq by simp
  next
    case (Inr b)
    show ?thesis
    proof (cases "new_serial = pi_serial (infos ml pi)")
      case True
      have "copy_value ctx' pi new_serial buf mc = Inr b" using Inr eq by simp
      with Inr True show ?thesis by (simp add: Let_def)
    next
      case False
      have "read_loop ctx pi (pi_serial (infos ml pi)) b ms =
            read_loop ctx' pi (pi_serial (infos ml pi)) b ms"
        using "3.IH" [OF refl Inr refl False] "3.prems" by simp
      then show ?thesis using Inr eq False by simp
    qed
  qed
qed

lemma read_loop_fault:
  "read_loop ctx pi s0 buf ms = Some (Inl e) \<Longrightarrow>
   \<exists>mc s prev. mc \<in> set ms \<and> copy_value ctx pi s prev mc = Inl e"
proof (induction ctx pi s0 buf ms rule: read_loop.induct)
  case (1 ctx pi new_serial buf)
  then show ?case by simp
next
  case (2 ctx pi new_serial buf mc)
  then show ?case by (auto split: sum.splits)
next
  case (3 ctx pi new_serial buf mc ml ms)
  show ?case
  proof (cases "copy_value ctx pi new_serial buf mc")
    case (Inl e')
    with "3.prems" have "e' = e" by simp
    with Inl show ?thesis by auto
  next
    case (Inr b)
    with "3.prems" have ne: "new_serial \<noteq> pi_serial (infos ml pi)"
      and "read_loop ctx pi (pi_serial (infos ml pi)) b ms = Some (Inl e)"
      by (auto simp: Let_def split: if_splits)
    from "3.IH" [OF refl Inr refl ne this(2)] show ?thesis by auto
  qed
qed

text \<open>A call that has not returned has seen the serial change in every round it completed.\<close>

lemma read_loop_None:
  "read_loop ctx pi s0 buf ms = None \<Longrightarrow> 2 * k + 1 < length ms \<Longrightarrow>
   pi_serial (infos (ms ! (2 * k + 1)) pi) \<noteq>
     (if k = 0 then s0 else pi_serial (infos (ms ! (2 * k - 1)) pi))"
proof (induction ctx pi s0 buf ms arbitrary: k rule: read_loop.induct)
  case (1 ctx pi new_serial buf)
  then show ?case by simp
next
  case (2 ctx pi new_serial buf mc)
  then show ?case by simp
next
  case (3 ctx pi new_serial buf mc ml ms)
  from "3.prems"(1) obtain b where b: "copy_value ctx pi new_serial buf mc = Inr b"
    and ne: "new_serial \<noteq> pi_serial (infos ml pi)"
    and rest: "read_loop ctx pi (pi_serial (infos ml pi)) b ms = None"
    by (auto simp: Let_def split: sum.splits if_splits)
  show ?case
  proof (cases k)
    case 0
    with ne show ?thesis by simp
  next
    case (Suc j)
    with "3.prems"(2) have j: "2 * j + 1 < length ms" by simp
    from "3.IH" [OF refl b refl ne rest j]
    have "pi_serial (infos (ms ! (2 * j + 1)) pi) \<noteq>
       (if j = 0 then pi_serial (infos ml pi) else pi_serial (infos (ms ! (2 * j - 1)) pi))" .
    moreover have "(mc # ml # ms) ! (2 * k + 1) = ms ! (2 * j + 1)" using Suc by simp
    moreover have "(mc # ml # ms) ! (2 * k - 1) =
       (if j = 0 then ml else ms ! (2 * j - 1))"
      using Suc by (cases j) simp_all
    ultimately show ?thesis using Suc by (simp split: if_splits)
  qed
qed

lemma ReadMutablePropertyValue_None:
  assumes "ReadMutablePropertyValue sp pi buf tr = None" and "2 * k + 2 < length tr"
  shows "pi_serial (infos (tr ! (2 * k + 2)) pi) \<noteq> pi_serial (infos (tr ! (2 * k)) pi)"
proof -
  from assms obtain m0 ms where tr: "tr = m0 # ms"
    and loop: "read_loop (contexts sp) pi (pi_serial (infos m0 pi)) buf ms = None"
    by (auto simp: ReadMutablePropertyValue_def split: list.splits)
  from assms(2) tr have k: "2 * k + 1 < length ms" by simp
  from read_loop_None [OF loop k]
  have "pi_serial (infos (ms ! (2 * k + 1)) pi) \<noteq>
     (if k = 0 then pi_serial (infos m0 pi) else pi_serial (infos (ms ! (2 * k - 1)) pi))" .
  moreover have "tr ! (2 * k + 2) = ms ! (2 * k + 1)" using tr by simp
  moreover have "tr ! (2 * k) = (if k = 0 then m0 else ms ! (2 * k - 1))"
    using tr by (cases k) simp_all
  ultimately show ?thesis by (simp split: if_splits)
qed

subsection \<open>A quiet trace\<close>

lemma ReadMutablePropertyValue_quiet:
  "pi_serial (infos ml pi) = pi_serial (infos mb pi) \<Longrightarrow>
   copy_value (contexts sp) pi (pi_serial (infos mb pi)) buf mc = Inr b \<Longrightarrow>
   ReadMutablePropertyValue sp pi buf (mb # mc # ml # rest) =
     Some (Inr (pi_serial (infos mb pi), b, rest))"
  by (simp add: ReadMutablePropertyValue_def)

subsection \<open>Update\<close>

lemma strlcpy_Inr:
  "strlcpy dst src (Suc k) = Inr (v, l) \<Longrightarrow>
   min (strlen src) k + 1 \<le> length dst \<and> l = strlen src \<and>
   v = take (min (strlen src) k) (c_str src) @ NUL # drop (min (strlen src) k + 1) dst"
  by (auto simp: strlcpy_def Let_def split: if_splits)

lemma Update_result: "Update sp m pi val len = Inr (r, m') \<Longrightarrow> r = 0 \<or> r = - 1 \<and> m' = m"
  by (auto simp: Update_def Let_def split: if_splits option.splits sum.splits prod.splits)

lemma Update_success_info:
  assumes "Update sp m pi val len = Inr (0, m')"
  shows "unat len < PROP_VALUE_MAX \<and> initialized sp \<and>
     (\<exists>v. strlcpy (pi_value (infos m pi)) val (unat len + 1) = Inr (v, strlen val) \<and>
       infos m' pi = (infos m pi)\<lparr>pi_serial :=
           push_bit 24 len OR (((pi_serial (infos m pi) OR 1) + 1) AND 0xffffff),
         pi_value := v\<rparr>)"
  using assms
  by (auto simp: Update_def Let_def store_defs strlcpy_def split: if_splits option.splits sum.splits prod.splits)

lemma Update_success_area:
  assumes "Update sp m pi val len = Inr (0, m')"
  shows "\<exists>serial_pa. GetSerialPropArea (contexts sp) = Some serial_pa \<and>
      GetPropAreaForName (contexts sp) (pi_name (infos m pi)) \<noteq> None \<and>
      pa_serial (areas m' serial_pa) = pa_serial (areas m serial_pa) + 1"
  using assms
  by (auto simp: Update_def Let_def store_defs split: if_splits option.splits sum.splits prod.splits)

lemma Update_rejects:
  "PROP_VALUE_MAX \<le> unat len \<or> \<not> initialized sp \<or>
   GetSerialPropArea (contexts sp) = None \<or>
   GetPropAreaForName (contexts sp) (pi_name (infos m pi)) = None \<Longrightarrow>
   Update sp m pi val len = Inr (- 1, m)"
  by (auto simp: Update_def split: option.splits)

text \<open>With its guards passed and the buffers at their size, \<open>Update\<close> returns 0.\<close>

lemma Update_succeeds:
  assumes a: "unat len < PROP_VALUE_MAX" "initialized sp"
    "GetSerialPropArea (contexts sp) = Some serial_pa"
    "GetPropAreaForName (contexts sp) (pi_name (infos m pi)) = Some pa"
    "length (pi_value (infos m pi)) = PROP_VALUE_MAX"
    "length (pa_dirty_backup_area (areas m pa)) = PROP_VALUE_MAX"
    "unat (SERIAL_VALUE_LEN (pi_serial (infos m pi))) < PROP_VALUE_MAX"
  shows "\<exists>m'. Update sp m pi val len = Inr (0, m') \<and>
           pi_serial (infos m' pi) =
             push_bit 24 len OR (((pi_serial (infos m pi) OR 1) + 1) AND 0xffffff) \<and>
           pi_value (infos m' pi) =
             take (min (strlen val) (unat len)) (c_str val) @
             NUL # drop (min (strlen val) (unat len) + 1) (pi_value (infos m pi))"
proof -
  let ?old = "unat (SERIAL_VALUE_LEN (pi_serial (infos m pi)))"
  let ?n = "min (strlen val) (unat len)"
  have mc: "memcpy (pa_dirty_backup_area (areas m pa)) (pi_value (infos m pi)) (?old + 1) =
      Inr (take (?old + 1) (pi_value (infos m pi)) @
           drop (?old + 1) (pa_dirty_backup_area (areas m pa)))"
    using a by (simp add: memcpy_def)
  have sc: "strlcpy (pi_value (infos m pi)) val (unat len + 1) =
      Inr (take ?n (c_str val) @ NUL # drop (?n + 1) (pi_value (infos m pi)), strlen val)"
    using a by (simp add: strlcpy_def Let_def)
  show ?thesis
    using a mc sc by (simp add: Update_def Let_def store_defs)
qed

lemma Update_final_serial_aux:
  assumes "Update sp m pi val len = Inr (0, m')"
  shows "pi_serial (infos m' pi) =
           push_bit 24 len OR (((pi_serial (infos m pi) OR 1) + 1) AND 0xffffff) \<and>
         SERIAL_VALUE_LEN (pi_serial (infos m' pi)) = len \<and>
         SERIAL_DIRTY (pi_serial (infos m' pi)) = 0"
proof -
  from Update_success_info [OF assms] have len: "unat len < PROP_VALUE_MAX"
    and s: "pi_serial (infos m' pi) =
           push_bit 24 len OR (((pi_serial (infos m pi) OR 1) + 1) AND 0xffffff)"
    by auto
  from len have "unat len < 256" by (simp add: PROP_VALUE_MAX_def)
  then show ?thesis using s by (simp add: serial_value_len_final serial_dirty_final)
qed

subsection \<open>Add and the area-serial\<close>

lemma prop_area_add_serial:
  "prop_area_add m pa name namelen val valuelen = (ret, m') \<Longrightarrow>
   pa_serial (areas m' a) = pa_serial (areas m a) \<and> (\<not> ret \<longrightarrow> m' = m)"
  by (auto simp: prop_area_add_def Let_def split: if_splits)

lemma Add_rejects:
  "(PROP_VALUE_MAX \<le> unat valuelen \<and> \<not> is_read_only name) \<or> namelen < 1 \<or>
   \<not> initialized sp \<or> GetSerialPropArea (contexts sp) = None \<or>
   GetPropAreaForName (contexts sp) name = None \<Longrightarrow>
   Add sp m name namelen val valuelen = (- 1, m)"
  by (auto simp: Add_def split: option.splits)

lemma Add_passes:
  "is_read_only name \<or> unat valuelen < PROP_VALUE_MAX \<Longrightarrow> 1 \<le> namelen \<Longrightarrow>
   initialized sp \<Longrightarrow> GetSerialPropArea (contexts sp) = Some serial_pa \<Longrightarrow>
   GetPropAreaForName (contexts sp) name = Some pa \<Longrightarrow>
   Add sp m name namelen val valuelen =
     (case prop_area_add m pa name namelen val valuelen of
        (ret, m1) \<Rightarrow>
          if ret then (0, store_area_serial m1 serial_pa (pa_serial (areas m1 serial_pa) + 1))
          else (- 1, m1))"
  by (auto simp: Add_def not_less [symmetric] split: prod.splits)

lemma Add_area_serial:
  assumes "GetSerialPropArea (contexts sp) = Some spa"
    and "Add sp m name namelen val valuelen = (r, m')"
  shows "r = 0 \<and> pa_serial (areas m' spa) = pa_serial (areas m spa) + 1 \<or>
         r = - 1 \<and> pa_serial (areas m' spa) = pa_serial (areas m spa)"
proof (cases "(PROP_VALUE_MAX \<le> unat valuelen \<and> \<not> is_read_only name) \<or> namelen < 1 \<or>
    \<not> initialized sp \<or> GetPropAreaForName (contexts sp) name = None")
  case True
  then have "(PROP_VALUE_MAX \<le> unat valuelen \<and> \<not> is_read_only name) \<or> namelen < 1 \<or>
    \<not> initialized sp \<or> GetSerialPropArea (contexts sp) = None \<or>
    GetPropAreaForName (contexts sp) name = None" by auto
  then have "Add sp m name namelen val valuelen = (- 1, m)" by (rule Add_rejects)
  with assms(2) show ?thesis by simp
next
  case False
  then obtain pa where pa: "GetPropAreaForName (contexts sp) name = Some pa" by auto
  obtain ret m1 where add: "prop_area_add m pa name namelen val valuelen = (ret, m1)"
    by (cases "prop_area_add m pa name namelen val valuelen")
  from prop_area_add_serial [OF add, of spa]
  have keep: "pa_serial (areas m1 spa) = pa_serial (areas m spa)" by simp
  from False have a: "is_read_only name \<or> unat valuelen < PROP_VALUE_MAX" by auto
  from False have "\<not> namelen < 1" by blast
  then have b: "1 \<le> namelen" by (simp only: not_less)
  from False have c: "initialized sp" by blast
  from Add_passes [OF a b c assms(1) pa, of m val] add have
    "Add sp m name namelen val valuelen =
       (if ret then (0, store_area_serial m1 spa (pa_serial (areas m1 spa) + 1))
        else (- 1, m1))"
    by simp
  with assms(2) keep show ?thesis
    by (auto simp: store_area_serial_def split: if_splits)
qed

lemma Update_area_serial:
  assumes "GetSerialPropArea (contexts sp) = Some spa"
    and "Update sp m pi val len = Inr (r, m')"
  shows "r = 0 \<and> pa_serial (areas m' spa) = pa_serial (areas m spa) + 1 \<or>
         r = - 1 \<and> pa_serial (areas m' spa) = pa_serial (areas m spa)"
proof -
  from Update_result [OF assms(2)] show ?thesis
  proof
    assume "r = 0"
    with assms(2) Update_success_area [of sp m pi val len m'] assms(1) show ?thesis by auto
  next
    assume "r = - 1 \<and> m' = m"
    then show ?thesis by simp
  qed
qed

lemma apply_op_area_serial:
  assumes "GetSerialPropArea (contexts sp) = Some spa"
    and "apply_op sp m x = Inr (r, m')"
  shows "r = 0 \<and> pa_serial (areas m' spa) = pa_serial (areas m spa) + 1 \<or>
         r = - 1 \<and> pa_serial (areas m' spa) = pa_serial (areas m spa)"
proof (cases x)
  case (OpAdd name namelen val valuelen)
  with assms(2) have "Add sp m name namelen val valuelen = (r, m')" by simp
  from Add_area_serial [OF assms(1) this] show ?thesis .
next
  case (OpUpdate pi val len)
  with assms(2) have "Update sp m pi val len = Inr (r, m')" by simp
  from Update_area_serial [OF assms(1) this] show ?thesis .
qed

lemma run_ops_area_serial:
  assumes "GetSerialPropArea (contexts sp) = Some spa"
  shows "run_ops sp m ops = Inr (rs, m') \<Longrightarrow>
     length rs = length ops \<and> set rs \<subseteq> {0, - 1} \<and>
     pa_serial (areas m' spa) = pa_serial (areas m spa) + of_nat (count_list rs 0)"
proof (induction ops arbitrary: m rs)
  case Nil
  then show ?case by simp
next
  case (Cons x xs)
  from Cons.prems obtain r m1 rs1 where
    step: "apply_op sp m x = Inr (r, m1)" and tail: "run_ops sp m1 xs = Inr (rs1, m')"
    and rs: "rs = r # rs1"
    by (auto split: sum.splits prod.splits)
  from Cons.IH [OF tail] have ih: "length rs1 = length xs" "set rs1 \<subseteq> {0, - 1}"
    "pa_serial (areas m' spa) = pa_serial (areas m1 spa) + of_nat (count_list rs1 0)"
    by simp_all
  from apply_op_area_serial [OF assms step] show ?case
    using ih rs by auto
qed

lemma word_add_of_nat_le:
  fixes a :: u32
  assumes "unat a + k < 2 ^ 32"
  shows "a \<le> a + of_nat k" and "0 < k \<Longrightarrow> a < a + of_nat k"
proof -
  have k: "unat (of_nat k :: u32) = k" using assms by (simp add: unat_of_nat)
  have "unat (a + of_nat k) = unat a + k"
    using assms k by (simp add: unat_add_lem [THEN iffD1])
  then show "a \<le> a + of_nat k" and "0 < k \<Longrightarrow> a < a + of_nat k"
    by (simp_all add: word_le_nat_alt word_less_nat_alt)
qed

text \<open>
  A PropInfo that \<open>Add\<close> creates lies in the area its name is routed to: for it,
  the area the reader takes from the router is the enclosing area.
\<close>

lemma Add_places_record:
  assumes "Add sp m name namelen val valuelen = (0, m')" and "length name \<le> unat namelen"
  shows "\<exists>pa off. GetPropAreaForName (contexts sp) name = Some pa \<and>
           pi_name (infos m' (pa, off)) = name \<and>
           GetPropAreaForName (contexts sp) (pi_name (infos m' (pa, off))) = Some (fst (pa, off))"
proof -
  from assms(1) obtain serial_pa pa m1 where
    pa: "GetPropAreaForName (contexts sp) name = Some pa"
    and add: "prop_area_add m pa name namelen val valuelen = (True, m1)"
    and m': "m' = store_area_serial m1 serial_pa (pa_serial (areas m1 serial_pa) + 1)"
    by (auto simp: Add_def split: if_splits option.splits prod.splits)
  from add have "pi_name (infos m1 (pa, pa_bytes_used (areas m pa))) = take (unat namelen) name"
    by (auto simp: prop_area_add_def new_prop_info_def Let_def split: if_splits)
  with assms(2) m' have "pi_name (infos m' (pa, pa_bytes_used (areas m pa))) = name"
    by (simp add: store_area_serial_def)
  with pa show ?thesis by auto
qed

text \<open>The example states of the writer end in the memory that \<open>Update\<close> returns.\<close>

lemma ex_updated_Update: "Update ex_store ex_memory ex_pi ''hello'' 5 = Inr (0, ex_updated)"
  by (simp add: Update_def ex_defs ex_writer_defs op_defs replicate_85)

subsection \<open>Wait\<close>

lemma wait_loop_contract:
  "wait_loop p old nsp evs = Some (r, v) \<Longrightarrow>
   (r \<and> v \<noteq> old \<and> (\<exists>rc m. (rc, m) \<in> set evs \<and> load_serial m p = v)) \<or>
   (\<not> r \<and> v = nsp \<and> (\<exists>m. (- ETIMEDOUT, m) \<in> set evs))"
proof (induction p old nsp evs rule: wait_loop.induct)
  case (1 serial_ptr old_serial new_serial_ptr)
  then show ?case by simp
next
  case (2 serial_ptr old_serial new_serial_ptr rc m evs)
  show ?case
  proof (cases "rc \<noteq> 0 \<and> rc = - ETIMEDOUT")
    case True
    with "2.prems" show ?thesis by auto
  next
    case False
    show ?thesis
    proof (cases "load_serial m serial_ptr = old_serial")
      case True
      with False "2.prems" have "wait_loop serial_ptr old_serial new_serial_ptr evs = Some (r, v)"
        by (auto simp: Let_def split: if_splits)
      from "2.IH" [OF False refl True this] show ?thesis by auto
    next
      case ne: False
      with False "2.prems" have "r" "v = load_serial m serial_ptr"
        by (auto simp: Let_def split: if_splits)
      with ne show ?thesis by auto
    qed
  qed
qed

text \<open>Once the loop is entered, the contract of Wait holds.\<close>

lemma Wait_entered:
  assumes "pi \<noteq> None \<or> initialized sp \<and> GetSerialPropArea (contexts sp) \<noteq> None"
    and "Wait sp pi old nsp evs = Some (r, v)"
  shows "(r \<and> v \<noteq> old) \<or> (\<not> r \<and> v = nsp \<and> (\<exists>m. (- ETIMEDOUT, m) \<in> set evs))"
proof -
  from assms obtain p where "wait_loop p old nsp evs = Some (r, v)"
    by (auto simp: Wait_def split: option.splits if_splits)
  from wait_loop_contract [OF this] show ?thesis by blast
qed

subsection \<open>The callback\<close>

lemma in_range_callback:
  assumes "(10000 \<le> uid \<and> uid \<le> 19999) \<or> (90000 \<le> uid \<and> uid \<le> 99999)"
  shows "callback uid name v s =
    (name,
     if c_str name = ''init.svc.adbd'' then ''stopped''
     else if c_str name = ''sys.usb.configfs'' then ''0''
     else if c_str name \<in> {''persist.sys.usb.config'', ''sys.usb.config'', ''sys.usb.state''}
     then ''none'' else v,
     s)"
  using assms by (simp add: callback_def strcmp_eq_0_iff c_str_def NUL_def)

lemma out_of_range_callback:
  assumes "\<not> ((10000 \<le> uid \<and> uid \<le> 19999) \<or> (90000 \<le> uid \<and> uid \<le> 99999))"
  shows "callback uid name v s = (name, v, s)"
  using assms by (auto simp: callback_def)

lemma not_read_only:
  "c_str name \<in> {''init.svc.adbd'', ''sys.usb.configfs'', ''persist.sys.usb.config'',
      ''sys.usb.config'', ''sys.usb.state''} \<Longrightarrow> \<not> is_read_only name"
  by (auto simp: is_read_only_iff)

section \<open>The reader\<close>

text \<open>
  C2 (reader byte-source selection). With \<open>len = s >> 24\<close> and the dirty bit
  \<open>s & 1\<close> written out:

  \<^item> A round of the loop that starts from the loaded serial \<open>s\<close> copies exactly
    \<open>len + 1\<close> bytes into the caller's buffer and leaves the rest of the buffer as
    it was; the bytes come from the dirty-backup buffer of the enclosing area
    when the dirty bit of \<open>s\<close> is 1, and from the inline value of the PropInfo
    when it is 0. When the load after the copy gives \<open>s\<close> again the call returns
    \<open>s\<close> and that buffer; otherwise it goes on from the new state with that
    buffer. (The code takes the area from the router; it is the enclosing area
    for a PropInfo that lies in the area its name is routed to, which is where
    \<open>Add\<close> creates it.)
  \<^item> Every return is the return of such a round: the last three accesses are a
    load that gave the returned serial, the copy, and a load that gave it again,
    and the call returns what a call of that one round on the buffer \<open>prev\<close>
    left by the earlier rounds returns (\<open>prev\<close> is the caller's buffer when there
    are none).
  \<^item> A call that has not returned has seen the serial change in every round it
    completed.
\<close>

theorem ReadMutablePropertyValue_byte_source:
  "(pi_serial (infos mb pi) = s \<longrightarrow>
    (s AND 1 = 1 \<longrightarrow>
       GetPropAreaForName (contexts sp) (pi_name (infos mc pi)) = Some (fst pi)) \<longrightarrow>
    src = (if s AND 1 = 1 then pa_dirty_backup_area (areas mc (fst pi))
           else pi_value (infos mc pi)) \<longrightarrow>
    unat (drop_bit 24 s) + 1 \<le> length src \<longrightarrow>
    unat (drop_bit 24 s) + 1 \<le> length buf \<longrightarrow>
      ReadMutablePropertyValue sp pi buf (mb # mc # ml # rest) =
        (if pi_serial (infos ml pi) = s
         then Some (Inr (s,
                take (unat (drop_bit 24 s) + 1) src @ drop (unat (drop_bit 24 s) + 1) buf,
                rest))
         else ReadMutablePropertyValue sp pi
                (take (unat (drop_bit 24 s) + 1) src @ drop (unat (drop_bit 24 s) + 1) buf)
                (ml # rest))) \<and>
   (ReadMutablePropertyValue sp pi buf tr = Some (Inr (r, out, rs)) \<longrightarrow>
      (\<exists>pre lb cp la prev origin.
         tr = pre @ lb # cp # la # rs \<and>
         pi_serial (infos lb pi) = r \<and> pi_serial (infos la pi) = r \<and>
         length prev = length buf \<and> (pre = [] \<longrightarrow> prev = buf) \<and>
         ReadMutablePropertyValue sp pi prev (lb # cp # la # rs) = Some (Inr (r, out, rs)) \<and>
         (r AND 1 = 1 \<and>
            (\<exists>pa. GetPropAreaForName (contexts sp) (pi_name (infos cp pi)) = Some pa \<and>
                  origin = pa_dirty_backup_area (areas cp pa)) \<or>
          r AND 1 = 0 \<and> origin = pi_value (infos cp pi)) \<and>
         unat (drop_bit 24 r) + 1 \<le> length origin \<and>
         unat (drop_bit 24 r) + 1 \<le> length prev \<and>
         out = take (unat (drop_bit 24 r) + 1) origin @ drop (unat (drop_bit 24 r) + 1) prev)) \<and>
   (ReadMutablePropertyValue sp pi buf tr = None \<longrightarrow> 2 * k + 2 < length tr \<longrightarrow>
      pi_serial (infos (tr ! (2 * k + 2)) pi) \<noteq> pi_serial (infos (tr ! (2 * k)) pi))"
proof (intro conjI impI)
  let ?n = "unat (drop_bit 24 s) + 1"
  assume lb: "pi_serial (infos mb pi) = s"
    and home: "s AND 1 = 1 \<longrightarrow>
       GetPropAreaForName (contexts sp) (pi_name (infos mc pi)) = Some (fst pi)"
    and src: "src = (if s AND 1 = 1 then pa_dirty_backup_area (areas mc (fst pi))
           else pi_value (infos mc pi))"
    and fit: "?n \<le> length src" "?n \<le> length buf"
  from and_one_cases [of s]
  have cv: "copy_value (contexts sp) pi s buf mc = Inr (take ?n src @ drop ?n buf)"
  proof
    assume "s AND 1 = 0"
    with src fit show ?thesis
      by (simp add: copy_value_def memcpy_def SERIAL_DIRTY_def SERIAL_VALUE_LEN_def Let_def)
  next
    assume "s AND 1 = 1"
    with home src fit show ?thesis
      by (simp add: copy_value_def memcpy_def SERIAL_DIRTY_def SERIAL_VALUE_LEN_def Let_def)
  qed
  show "ReadMutablePropertyValue sp pi buf (mb # mc # ml # rest) =
        (if pi_serial (infos ml pi) = s
         then Some (Inr (s, take ?n src @ drop ?n buf, rest))
         else ReadMutablePropertyValue sp pi (take ?n src @ drop ?n buf) (ml # rest))"
    using lb cv by (auto simp: ReadMutablePropertyValue_def Let_def)
next
  assume ret: "ReadMutablePropertyValue sp pi buf tr = Some (Inr (r, out, rs))"
  let ?n = "unat (drop_bit 24 r) + 1"
  from ReadMutablePropertyValue_returns [OF ret] obtain pre lb cp la prev where
    *: "tr = pre @ lb # cp # la # rs" "length prev = length buf" "pre = [] \<longrightarrow> prev = buf"
       "pi_serial (infos lb pi) = r"
       "copy_value (contexts sp) pi r prev cp = Inr out" "pi_serial (infos la pi) = r"
    by blast
  from *(4,5,6) have one: "ReadMutablePropertyValue sp pi prev (lb # cp # la # rs) =
      Some (Inr (r, out, rs))"
    by (simp add: ReadMutablePropertyValue_def)
  from and_one_cases [of r] have "\<exists>origin.
     (r AND 1 = 1 \<and>
        (\<exists>pa. GetPropAreaForName (contexts sp) (pi_name (infos cp pi)) = Some pa \<and>
              origin = pa_dirty_backup_area (areas cp pa)) \<or>
      r AND 1 = 0 \<and> origin = pi_value (infos cp pi)) \<and>
     ?n \<le> length origin \<and> ?n \<le> length prev \<and>
     out = take ?n origin @ drop ?n prev"
  proof
    assume clean: "r AND 1 = 0"
    with *(5) have "memcpy prev (pi_value (infos cp pi)) ?n = Inr out"
      by (simp add: copy_value_def SERIAL_DIRTY_def SERIAL_VALUE_LEN_def)
    then have "?n \<le> length prev" "?n \<le> length (pi_value (infos cp pi))"
      "out = take ?n (pi_value (infos cp pi)) @ drop ?n prev"
      by (simp_all add: memcpy_Inr)
    with clean show ?thesis by blast
  next
    assume dirty: "r AND 1 = 1"
    with *(5) obtain pa where
      pa: "GetPropAreaForName (contexts sp) (pi_name (infos cp pi)) = Some pa"
      and "memcpy prev (pa_dirty_backup_area (areas cp pa)) ?n = Inr out"
      by (auto simp: copy_value_def SERIAL_DIRTY_def SERIAL_VALUE_LEN_def split: option.splits)
    then have "?n \<le> length prev" "?n \<le> length (pa_dirty_backup_area (areas cp pa))"
      "out = take ?n (pa_dirty_backup_area (areas cp pa)) @ drop ?n prev"
      by (simp_all add: memcpy_Inr)
    with dirty pa show ?thesis by blast
  qed
  with * one show "\<exists>pre lb cp la prev origin.
         tr = pre @ lb # cp # la # rs \<and>
         pi_serial (infos lb pi) = r \<and> pi_serial (infos la pi) = r \<and>
         length prev = length buf \<and> (pre = [] \<longrightarrow> prev = buf) \<and>
         ReadMutablePropertyValue sp pi prev (lb # cp # la # rs) = Some (Inr (r, out, rs)) \<and>
         (r AND 1 = 1 \<and>
            (\<exists>pa. GetPropAreaForName (contexts sp) (pi_name (infos cp pi)) = Some pa \<and>
                  origin = pa_dirty_backup_area (areas cp pa)) \<or>
          r AND 1 = 0 \<and> origin = pi_value (infos cp pi)) \<and>
         unat (drop_bit 24 r) + 1 \<le> length origin \<and>
         unat (drop_bit 24 r) + 1 \<le> length prev \<and>
         out = take (unat (drop_bit 24 r) + 1) origin @ drop (unat (drop_bit 24 r) + 1) prev"
    by blast
next
  assume "ReadMutablePropertyValue sp pi buf tr = None" and "2 * k + 2 < length tr"
  then show "pi_serial (infos (tr ! (2 * k + 2)) pi) \<noteq> pi_serial (infos (tr ! (2 * k)) pi)"
    by (rule ReadMutablePropertyValue_None)
qed

text \<open>
  A round made while the writer is between its two stores to the serial, where
  the backup (\<open>8.8.8.8\<close>) and the inline buffer (\<open>hello\<close>) differ; a call whose
  first round is overtaken by the writer and whose second round returns, leaving
  two bytes of the first copy behind the six of the second; and a call that has
  not returned.
\<close>

theorem ReadMutablePropertyValue_byte_source_witness:
  "pi_serial (infos ex_writing ex_pi) = 0x07000001 \<and>
   (0x07000001 :: u32) AND 1 = 1 \<and>
   GetPropAreaForName (contexts ex_store) (pi_name (infos ex_writing ex_pi)) = Some (fst ex_pi) \<and>
   pa_dirty_backup_area (areas ex_writing (fst ex_pi)) = ''8.8.8.8'' @ NUL # replicate 84 NUL \<and>
   pi_value (infos ex_writing ex_pi) = ''hello'' @ NUL # CHR ''8'' # NUL # replicate 84 NUL \<and>
   unat (drop_bit 24 (0x07000001 :: u32)) + 1 \<le> length (''8.8.8.8'' @ NUL # replicate 84 NUL) \<and>
   unat (drop_bit 24 (0x07000001 :: u32)) + 1 \<le> length (replicate 92 (CHR ''x'')) \<and>
   ReadMutablePropertyValue ex_store ex_pi (replicate 92 (CHR ''x''))
     [ex_writing, ex_writing, ex_writing, ex_memory] =
     Some (Inr (0x07000001, ''8.8.8.8'' @ NUL # replicate 84 (CHR ''x''), [ex_memory])) \<and>
   pi_serial (infos ex_memory ex_pi) = 0x07000000 \<and>
   pi_serial (infos ex_updated ex_pi) = 0x05000002 \<and>
   ReadMutablePropertyValue ex_store ex_pi (replicate 92 (CHR ''x''))
     [ex_memory, ex_memory, ex_updated, ex_updated, ex_updated] =
     Some (Inr (0x05000002, ''hello'' @ NUL # CHR ''8'' # NUL # replicate 84 (CHR ''x''), [])) \<and>
   (\<exists>pre lb cp la prev origin.
      [ex_memory, ex_memory, ex_updated, ex_updated, ex_updated] = pre @ lb # cp # la # [] \<and>
      pi_serial (infos lb ex_pi) = 0x05000002 \<and> pi_serial (infos la ex_pi) = 0x05000002 \<and>
      length prev = length (replicate 92 (CHR ''x'')) \<and>
      (pre = [] \<longrightarrow> prev = replicate 92 (CHR ''x'')) \<and>
      ReadMutablePropertyValue ex_store ex_pi prev (lb # cp # la # []) =
        Some (Inr (0x05000002, ''hello'' @ NUL # CHR ''8'' # NUL # replicate 84 (CHR ''x''), [])) \<and>
      ((0x05000002 :: u32) AND 1 = 1 \<and>
         (\<exists>pa. GetPropAreaForName (contexts ex_store) (pi_name (infos cp ex_pi)) = Some pa \<and>
               origin = pa_dirty_backup_area (areas cp pa)) \<or>
       (0x05000002 :: u32) AND 1 = 0 \<and> origin = pi_value (infos cp ex_pi)) \<and>
      unat (drop_bit 24 (0x05000002 :: u32)) + 1 \<le> length origin \<and>
      unat (drop_bit 24 (0x05000002 :: u32)) + 1 \<le> length prev \<and>
      ''hello'' @ NUL # CHR ''8'' # NUL # replicate 84 (CHR ''x'') =
        take (unat (drop_bit 24 (0x05000002 :: u32)) + 1) origin @
        drop (unat (drop_bit 24 (0x05000002 :: u32)) + 1) prev) \<and>
   ReadMutablePropertyValue ex_store ex_pi (replicate 92 (CHR ''x''))
     [ex_memory, ex_memory, ex_writing, ex_writing] = None \<and>
   2 * 0 + 2 < length [ex_memory, ex_memory, ex_writing, ex_writing] \<and>
   pi_serial (infos ([ex_memory, ex_memory, ex_writing, ex_writing] ! (2 * 0 + 2)) ex_pi) \<noteq>
   pi_serial (infos ([ex_memory, ex_memory, ex_writing, ex_writing] ! (2 * 0)) ex_pi)"
proof -
  have st: "pi_serial (infos ex_writing ex_pi) = 0x07000001"
    "pi_serial (infos ex_memory ex_pi) = 0x07000000"
    "pi_serial (infos ex_updated ex_pi) = 0x05000002"
    "(0x07000001 :: u32) AND 1 = 1" "(0x07000000 :: u32) AND 1 = 0" "(0x05000002 :: u32) AND 1 = 0"
    "GetPropAreaForName (contexts ex_store) (pi_name (infos ex_writing ex_pi)) = Some (fst ex_pi)"
    "pa_dirty_backup_area (areas ex_writing (fst ex_pi)) = ''8.8.8.8'' @ NUL # replicate 84 NUL"
    "pi_value (infos ex_writing ex_pi) = ''hello'' @ NUL # CHR ''8'' # NUL # replicate 84 NUL"
    "pi_value (infos ex_memory ex_pi) = ''8.8.8.8'' @ NUL # replicate 84 NUL"
    "pi_value (infos ex_updated ex_pi) = ''hello'' @ NUL # CHR ''8'' # NUL # replicate 84 NUL"
    "unat (drop_bit 24 (0x07000001 :: u32)) = 7" "unat (drop_bit 24 (0x07000000 :: u32)) = 7"
    "unat (drop_bit 24 (0x05000002 :: u32)) = 5"
    by (simp_all add: ex_defs ex_writer_defs store_defs NUL_def replicate_85)
  have dirty: "ReadMutablePropertyValue ex_store ex_pi (replicate 92 (CHR ''x''))
     [ex_writing, ex_writing, ex_writing, ex_memory] =
     Some (Inr (0x07000001, ''8.8.8.8'' @ NUL # replicate 84 (CHR ''x''), [ex_memory]))"
    using ReadMutablePropertyValue_byte_source
      [where mb = ex_writing and mc = ex_writing and ml = ex_writing and rest = "[ex_memory]"
         and pi = ex_pi and sp = ex_store and s = "0x07000001"
         and src = "''8.8.8.8'' @ NUL # replicate 84 NUL" and buf = "replicate 92 (CHR ''x'')",
       THEN conjunct1]
    by (simp add: st)
  have dirty_eval: "ReadMutablePropertyValue ex_store ex_pi (replicate 92 (CHR ''x''))
     [ex_writing, ex_writing, ex_writing, ex_memory] =
     Some (Inr (0x07000001, ''8.8.8.8'' @ NUL # replicate 84 (CHR ''x''), [ex_memory]))"
    by (simp add: ReadMutablePropertyValue_def ex_defs ex_writer_defs op_defs)
  have ret:
    "ReadMutablePropertyValue ex_store ex_pi (replicate 92 (CHR ''x''))
       [ex_memory, ex_memory, ex_updated, ex_updated, ex_updated] =
     Some (Inr (0x05000002, ''hello'' @ NUL # CHR ''8'' # NUL # replicate 84 (CHR ''x''), []))"
    by (simp add: ReadMutablePropertyValue_def ex_defs ex_writer_defs op_defs)
  have last: "(\<exists>pre lb cp la prev origin.
      [ex_memory, ex_memory, ex_updated, ex_updated, ex_updated] = pre @ lb # cp # la # [] \<and>
      pi_serial (infos lb ex_pi) = 0x05000002 \<and> pi_serial (infos la ex_pi) = 0x05000002 \<and>
      length prev = length (replicate 92 (CHR ''x'')) \<and>
      (pre = [] \<longrightarrow> prev = replicate 92 (CHR ''x'')) \<and>
      ReadMutablePropertyValue ex_store ex_pi prev (lb # cp # la # []) =
        Some (Inr (0x05000002, ''hello'' @ NUL # CHR ''8'' # NUL # replicate 84 (CHR ''x''), [])) \<and>
      ((0x05000002 :: u32) AND 1 = 1 \<and>
         (\<exists>pa. GetPropAreaForName (contexts ex_store) (pi_name (infos cp ex_pi)) = Some pa \<and>
               origin = pa_dirty_backup_area (areas cp pa)) \<or>
       (0x05000002 :: u32) AND 1 = 0 \<and> origin = pi_value (infos cp ex_pi)) \<and>
      unat (drop_bit 24 (0x05000002 :: u32)) + 1 \<le> length origin \<and>
      unat (drop_bit 24 (0x05000002 :: u32)) + 1 \<le> length prev \<and>
      ''hello'' @ NUL # CHR ''8'' # NUL # replicate 84 (CHR ''x'') =
        take (unat (drop_bit 24 (0x05000002 :: u32)) + 1) origin @
        drop (unat (drop_bit 24 (0x05000002 :: u32)) + 1) prev)"
    by (rule ReadMutablePropertyValue_byte_source
      [where pi = ex_pi and sp = ex_store and buf = "replicate 92 (CHR ''x'')"
         and tr = "[ex_memory, ex_memory, ex_updated, ex_updated, ex_updated]"
         and r = "0x05000002" and rs = "[]"
         and out = "''hello'' @ NUL # CHR ''8'' # NUL # replicate 84 (CHR ''x'')",
       THEN conjunct2, THEN conjunct1, THEN mp, OF ret])
  have open_call: "ReadMutablePropertyValue ex_store ex_pi (replicate 92 (CHR ''x''))
     [ex_memory, ex_memory, ex_writing, ex_writing] = None"
    by (simp add: ReadMutablePropertyValue_def ex_defs ex_writer_defs op_defs)
  from ReadMutablePropertyValue_byte_source
      [where pi = ex_pi and sp = ex_store and buf = "replicate 92 (CHR ''x'')"
         and tr = "[ex_memory, ex_memory, ex_writing, ex_writing]" and k = 0] open_call
  have changed:
    "pi_serial (infos ([ex_memory, ex_memory, ex_writing, ex_writing] ! (2 * 0 + 2)) ex_pi) \<noteq>
     pi_serial (infos ([ex_memory, ex_memory, ex_writing, ex_writing] ! (2 * 0)) ex_pi)"
    by simp
  from st dirty dirty_eval ret open_call changed show ?thesis using last by simp
qed

text \<open>
  C5 (readers return only clean serials), as stated: whatever the state of the
  serial word at the call, the serial returned has its dirty bit 0. It fails
  while a writer is between its two stores to the serial: the reader copies the
  backup (here \<open>8.8.8.8\<close>, the inline buffer holding \<open>hello\<close>) and returns the
  dirty serial it loaded twice.
\<close>

theorem ReadMutablePropertyValue_dirty_serial_counterexample:
  "ReadMutablePropertyValue ex_store ex_pi (replicate 92 NUL) [ex_writing, ex_writing, ex_writing] =
     Some (Inr (0x07000001, ''8.8.8.8'' @ NUL # replicate 84 NUL, [])) \<and>
   (0x07000001 :: u32) AND 1 = 1 \<and>
   SERIAL_DIRTY (0x07000001 :: u32) = 1 \<and>
   pi_value (infos ex_writing ex_pi) = ''hello'' @ NUL # CHR ''8'' # NUL # replicate 84 NUL"
  by (simp add: ReadMutablePropertyValue_def ex_defs ex_writer_defs op_defs replicate_85)

text \<open>
  C5, amended: the serial returned is the value that the two loads around the
  last copy gave, so its dirty bit is 0 whenever the serial word is clean in the
  states the call observes. When the serial word is dirty and unchanged across
  the copy, the reader copies the dirty backup and returns that dirty serial;
  when it is clean and unchanged across the copy, the reader copies the inline
  value and returns that clean serial. (The dirty bit \<open>s & 1\<close> and the length
  \<open>s >> 24\<close> are written out.)
\<close>

theorem ReadMutablePropertyValue_clean_serial:
  "(ReadMutablePropertyValue sp pi buf tr = Some (Inr (s, buf', rest)) \<longrightarrow>
      (\<exists>pre mb mc ml. tr = pre @ mb # mc # ml # rest \<and>
          pi_serial (infos mb pi) = s \<and> pi_serial (infos ml pi) = s) \<and>
      ((\<forall>m\<in>set tr. pi_serial (infos m pi) AND 1 = 0) \<longrightarrow> s AND 1 = 0) \<and>
      ((\<forall>m\<in>set tr. SERIAL_DIRTY (pi_serial (infos m pi)) = 0) \<longrightarrow> SERIAL_DIRTY s = 0)) \<and>
   (pi_serial (infos lb pi) = d \<longrightarrow> pi_serial (infos la pi) = d \<longrightarrow> d AND 1 = 1 \<longrightarrow>
    GetPropAreaForName (contexts sp) (pi_name (infos cp pi)) = Some pa \<longrightarrow>
    unat (drop_bit 24 d) + 1 \<le> length (pa_dirty_backup_area (areas cp pa)) \<longrightarrow>
    unat (drop_bit 24 d) + 1 \<le> length buf \<longrightarrow>
      ReadMutablePropertyValue sp pi buf (lb # cp # la # rs) =
        Some (Inr (d,
          take (unat (drop_bit 24 d) + 1) (pa_dirty_backup_area (areas cp pa)) @
          drop (unat (drop_bit 24 d) + 1) buf,
          rs))) \<and>
   (pi_serial (infos lb pi) = c \<longrightarrow> pi_serial (infos la pi) = c \<longrightarrow> c AND 1 = 0 \<longrightarrow>
    unat (drop_bit 24 c) + 1 \<le> length (pi_value (infos cp pi)) \<longrightarrow>
    unat (drop_bit 24 c) + 1 \<le> length buf \<longrightarrow>
      ReadMutablePropertyValue sp pi buf (lb # cp # la # rs) =
        Some (Inr (c,
          take (unat (drop_bit 24 c) + 1) (pi_value (infos cp pi)) @
          drop (unat (drop_bit 24 c) + 1) buf,
          rs)))"
proof (intro conjI impI)
  assume ret: "ReadMutablePropertyValue sp pi buf tr = Some (Inr (s, buf', rest))"
  from ReadMutablePropertyValue_returns [OF ret] obtain pre mb mc ml where
    *: "tr = pre @ mb # mc # ml # rest" "pi_serial (infos mb pi) = s" "pi_serial (infos ml pi) = s"
    by blast
  then show "\<exists>pre mb mc ml. tr = pre @ mb # mc # ml # rest \<and>
          pi_serial (infos mb pi) = s \<and> pi_serial (infos ml pi) = s"
    by blast
  from * have mb: "mb \<in> set tr" by simp
  {
    assume "\<forall>m\<in>set tr. pi_serial (infos m pi) AND 1 = 0"
    with mb *(2) show "s AND 1 = 0" by blast
  }
  {
    assume "\<forall>m\<in>set tr. SERIAL_DIRTY (pi_serial (infos m pi)) = 0"
    with mb *(2) show "SERIAL_DIRTY s = 0" by blast
  }
next
  assume "pi_serial (infos lb pi) = d" "pi_serial (infos la pi) = d" "d AND 1 = 1"
    "GetPropAreaForName (contexts sp) (pi_name (infos cp pi)) = Some pa"
    "unat (drop_bit 24 d) + 1 \<le> length (pa_dirty_backup_area (areas cp pa))"
    "unat (drop_bit 24 d) + 1 \<le> length buf"
  then show "ReadMutablePropertyValue sp pi buf (lb # cp # la # rs) =
        Some (Inr (d,
          take (unat (drop_bit 24 d) + 1) (pa_dirty_backup_area (areas cp pa)) @
          drop (unat (drop_bit 24 d) + 1) buf,
          rs))"
    by (simp add: ReadMutablePropertyValue_def copy_value_def memcpy_def SERIAL_DIRTY_def
          SERIAL_VALUE_LEN_def Let_def)
next
  assume "pi_serial (infos lb pi) = c" "pi_serial (infos la pi) = c" "c AND 1 = 0"
    "unat (drop_bit 24 c) + 1 \<le> length (pi_value (infos cp pi))"
    "unat (drop_bit 24 c) + 1 \<le> length buf"
  then show "ReadMutablePropertyValue sp pi buf (lb # cp # la # rs) =
        Some (Inr (c,
          take (unat (drop_bit 24 c) + 1) (pi_value (infos cp pi)) @
          drop (unat (drop_bit 24 c) + 1) buf,
          rs))"
    by (simp add: ReadMutablePropertyValue_def copy_value_def memcpy_def SERIAL_DIRTY_def
          SERIAL_VALUE_LEN_def Let_def)
qed

theorem ReadMutablePropertyValue_clean_serial_witness:
  "ReadMutablePropertyValue ex_store ex_pi (replicate 92 NUL) [ex_memory, ex_memory, ex_memory] =
     Some (Inr (0x07000000, ''8.8.8.8'' @ NUL # replicate 84 NUL, [])) \<and>
   pi_serial (infos ex_memory ex_pi) = 0x07000000 \<and>
   (0x07000000 :: u32) AND 1 = 0 \<and>
   SERIAL_DIRTY (0x07000000 :: u32) = 0 \<and>
   unat (drop_bit 24 (0x07000000 :: u32)) + 1 \<le> length (pi_value (infos ex_memory ex_pi)) \<and>
   pi_serial (infos ex_writing ex_pi) = 0x07000001 \<and>
   (0x07000001 :: u32) AND 1 = 1 \<and>
   GetPropAreaForName (contexts ex_store) (pi_name (infos ex_writing ex_pi)) = Some 0 \<and>
   unat (drop_bit 24 (0x07000001 :: u32)) + 1 \<le> length (pa_dirty_backup_area (areas ex_writing 0)) \<and>
   unat (drop_bit 24 (0x07000001 :: u32)) + 1 \<le> length (replicate 92 NUL) \<and>
   pa_dirty_backup_area (areas ex_writing 0) = ''8.8.8.8'' @ NUL # replicate 84 NUL \<and>
   pi_value (infos ex_writing ex_pi) = ''hello'' @ NUL # CHR ''8'' # NUL # replicate 84 NUL \<and>
   ReadMutablePropertyValue ex_store ex_pi (replicate 92 NUL) [ex_writing, ex_writing, ex_writing] =
     Some (Inr (0x07000001, ''8.8.8.8'' @ NUL # replicate 84 NUL, []))"
proof -
  have st: "pi_serial (infos ex_memory ex_pi) = 0x07000000"
    "(0x07000000 :: u32) AND 1 = 0" "SERIAL_DIRTY (0x07000000 :: u32) = 0"
    "pi_value (infos ex_memory ex_pi) = ''8.8.8.8'' @ NUL # replicate 84 NUL"
    "unat (drop_bit 24 (0x07000000 :: u32)) = 7"
    "pi_serial (infos ex_writing ex_pi) = 0x07000001"
    "(0x07000001 :: u32) AND 1 = 1"
    "GetPropAreaForName (contexts ex_store) (pi_name (infos ex_writing ex_pi)) = Some 0"
    "pa_dirty_backup_area (areas ex_writing 0) = ''8.8.8.8'' @ NUL # replicate 84 NUL"
    "pi_value (infos ex_writing ex_pi) = ''hello'' @ NUL # CHR ''8'' # NUL # replicate 84 NUL"
    "unat (drop_bit 24 (0x07000001 :: u32)) = 7"
    by (simp_all add: ex_defs ex_writer_defs store_defs NUL_def SERIAL_DIRTY_def replicate_85)
  have clean: "ReadMutablePropertyValue ex_store ex_pi (replicate 92 NUL)
      [ex_memory, ex_memory, ex_memory] =
     Some (Inr (0x07000000, ''8.8.8.8'' @ NUL # replicate 84 NUL, []))"
    using ReadMutablePropertyValue_clean_serial
      [where lb = ex_memory and cp = ex_memory and la = ex_memory and rs = "[]"
         and pi = ex_pi and sp = ex_store and c = "0x07000000" and buf = "replicate 92 NUL"]
    by (simp add: st)
  have all: "\<forall>m\<in>set [ex_memory, ex_memory, ex_memory]. pi_serial (infos m ex_pi) AND 1 = 0"
    by (simp add: st)
  from ReadMutablePropertyValue_clean_serial
      [where pi = ex_pi and sp = ex_store and buf = "replicate 92 NUL"
         and tr = "[ex_memory, ex_memory, ex_memory]" and s = "0x07000000"
         and buf' = "''8.8.8.8'' @ NUL # replicate 84 NUL" and rest = "[]"] clean all
  have bit: "(0x07000000 :: u32) AND 1 = 0" by blast
  have dirty: "ReadMutablePropertyValue ex_store ex_pi (replicate 92 NUL)
      [ex_writing, ex_writing, ex_writing] =
     Some (Inr (0x07000001, ''8.8.8.8'' @ NUL # replicate 84 NUL, []))"
    using ReadMutablePropertyValue_clean_serial
      [where lb = ex_writing and cp = ex_writing and la = ex_writing and rs = "[]"
         and pi = ex_pi and sp = ex_store and d = "0x07000001" and pa = 0
         and buf = "replicate 92 NUL"]
    by (simp add: st)
  have clean_eval: "ReadMutablePropertyValue ex_store ex_pi (replicate 92 NUL)
      [ex_memory, ex_memory, ex_memory] =
     Some (Inr (0x07000000, ''8.8.8.8'' @ NUL # replicate 84 NUL, []))"
    by (simp add: ReadMutablePropertyValue_def ex_defs op_defs)
  have dirty_eval: "ReadMutablePropertyValue ex_store ex_pi (replicate 92 NUL)
      [ex_writing, ex_writing, ex_writing] =
     Some (Inr (0x07000001, ''8.8.8.8'' @ NUL # replicate 84 NUL, []))"
    by (simp add: ReadMutablePropertyValue_def ex_defs ex_writer_defs op_defs)
  from st clean clean_eval bit dirty dirty_eval show ?thesis by simp
qed

text \<open>
  C10 (the dirty branch relies on the router). The null dereference is out of
  reach when the router resolves the name of the PropInfo; it is reached when
  the serial loaded is dirty and the router has no area for the name; and a call
  that only sees clean serials never asks the router: its result is the same
  under any other router.
\<close>

theorem ReadMutablePropertyValue_route_precondition:
  "((\<forall>m\<in>set tr. GetPropAreaForName (contexts sp) (pi_name (infos m pi)) \<noteq> None) \<longrightarrow>
      ReadMutablePropertyValue sp pi buf tr \<noteq> Some (Inl NullDereference)) \<and>
   (SERIAL_DIRTY (pi_serial (infos mb pi)) \<noteq> 0 \<longrightarrow>
    GetPropAreaForName (contexts sp) (pi_name (infos mc pi)) = None \<longrightarrow>
      ReadMutablePropertyValue sp pi buf (mb # mc # rest) = Some (Inl NullDereference)) \<and>
   ((\<forall>m\<in>set tr. SERIAL_DIRTY (pi_serial (infos m pi)) = 0) \<longrightarrow>
      ReadMutablePropertyValue (sp\<lparr>contexts := ctx'\<rparr>) pi buf tr =
      ReadMutablePropertyValue sp pi buf tr)"
proof (intro conjI impI)
  assume route: "\<forall>m\<in>set tr. GetPropAreaForName (contexts sp) (pi_name (infos m pi)) \<noteq> None"
  show "ReadMutablePropertyValue sp pi buf tr \<noteq> Some (Inl NullDereference)"
  proof
    assume "ReadMutablePropertyValue sp pi buf tr = Some (Inl NullDereference)"
    then obtain m0 ms where tr: "tr = m0 # ms"
      and "read_loop (contexts sp) pi (pi_serial (infos m0 pi)) buf ms = Some (Inl NullDereference)"
      by (auto simp: ReadMutablePropertyValue_def split: list.splits)
    from read_loop_fault [OF this(2)] obtain mc s prev where
      "mc \<in> set ms" "copy_value (contexts sp) pi s prev mc = Inl NullDereference" by blast
    then show False using route tr by (auto simp: copy_value_NullDereference)
  qed
next
  assume "SERIAL_DIRTY (pi_serial (infos mb pi)) \<noteq> 0"
    and "GetPropAreaForName (contexts sp) (pi_name (infos mc pi)) = None"
  then have "copy_value (contexts sp) pi (pi_serial (infos mb pi)) buf mc = Inl NullDereference"
    by (simp add: copy_value_NullDereference)
  then show "ReadMutablePropertyValue sp pi buf (mb # mc # rest) = Some (Inl NullDereference)"
    by (cases rest) (simp_all add: ReadMutablePropertyValue_def)
next
  assume clean: "\<forall>m\<in>set tr. SERIAL_DIRTY (pi_serial (infos m pi)) = 0"
  show "ReadMutablePropertyValue (sp\<lparr>contexts := ctx'\<rparr>) pi buf tr =
        ReadMutablePropertyValue sp pi buf tr"
  proof (cases tr)
    case Nil
    then show ?thesis by (simp add: ReadMutablePropertyValue_def)
  next
    case (Cons m0 ms)
    with clean have "SERIAL_DIRTY (pi_serial (infos m0 pi)) = 0"
      and "\<forall>m\<in>set ms. SERIAL_DIRTY (pi_serial (infos m pi)) = 0" by simp_all
    from read_loop_clean [OF this] show ?thesis
      using Cons by (simp add: ReadMutablePropertyValue_def)
  qed
qed

theorem ReadMutablePropertyValue_route_precondition_witness:
  "GetPropAreaForName (contexts ex_store) (pi_name (infos ex_memory ex_pi)) \<noteq> None \<and>
   ReadMutablePropertyValue ex_store ex_pi (replicate 92 NUL) [ex_memory, ex_memory, ex_memory]
     \<noteq> Some (Inl NullDereference) \<and>
   SERIAL_DIRTY (pi_serial (infos ex_dirty ex_pi)) \<noteq> 0 \<and>
   GetPropAreaForName (contexts (ex_store\<lparr>contexts := ex_no_route\<rparr>))
     (pi_name (infos ex_dirty ex_pi)) = None \<and>
   ReadMutablePropertyValue (ex_store\<lparr>contexts := ex_no_route\<rparr>) ex_pi (replicate 92 NUL)
     [ex_dirty, ex_dirty, ex_dirty] = Some (Inl NullDereference) \<and>
   SERIAL_DIRTY (pi_serial (infos ex_memory ex_pi)) = 0 \<and>
   ReadMutablePropertyValue (ex_store\<lparr>contexts := ex_no_route\<rparr>) ex_pi (replicate 92 NUL)
     [ex_memory, ex_memory, ex_memory] =
   ReadMutablePropertyValue ex_store ex_pi (replicate 92 NUL) [ex_memory, ex_memory, ex_memory]"
  using ReadMutablePropertyValue_route_precondition
     [where tr = "[ex_memory, ex_memory, ex_memory]" and sp = ex_store and pi = ex_pi and
        mb = ex_memory and mc = ex_memory and buf = "replicate 92 NUL" and rest = "[]" and
        ctx' = ex_no_route]
    ReadMutablePropertyValue_route_precondition
     [where tr = "[]" and sp = "ex_store\<lparr>contexts := ex_no_route\<rparr>" and pi = ex_pi and
        mb = ex_dirty and mc = ex_dirty and buf = "replicate 92 NUL" and rest = "[ex_dirty]" and
        ctx' = ex_no_route]
  by (simp add: ex_defs op_defs)

section \<open>The writer\<close>

text \<open>
  C3 (writer final serial formula), as stated: the serial stored at the end of a
  successful \<open>Update\<close> is \<open>(len << 24) | ((s + 1) & 0xFFFFFF)\<close>, with \<open>s\<close> the
  serial loaded at the start, before the dirty bit was set. On a clean \<open>s\<close> the
  code stores a serial that is larger by one, since it adds 1 to the serial that
  already has the dirty bit; the serial of the formula would have the dirty bit
  set.
\<close>

theorem Update_final_serial_counterexample:
  "(case Update ex_store ex_memory ex_pi ''hello'' 5 of
      Inl e \<Rightarrow> None | Inr (r, m') \<Rightarrow> Some (r, pi_serial (infos m' ex_pi))) =
     Some (0, 0x05000002) \<and>
   push_bit 24 5 OR ((pi_serial (infos ex_memory ex_pi) + 1) AND 0xffffff) = (0x05000001 :: u32) \<and>
   SERIAL_DIRTY (0x05000001 :: u32) = 1"
  by (simp add: Update_def ex_defs op_defs)

text \<open>
  C3, amended: the serial stored at the end of a successful \<open>Update\<close> is
  \<open>(len << 24) | (((s | 1) + 1) & 0xFFFFFF)\<close>, with \<open>s\<close> the serial loaded at the
  start; its length field is \<open>len\<close> and its dirty bit is clear.
\<close>

theorem Update_final_serial:
  assumes "Update sp m pi val len = Inr (0, m')"
  shows "pi_serial (infos m' pi) =
           push_bit 24 len OR (((pi_serial (infos m pi) OR 1) + 1) AND 0xffffff) \<and>
         SERIAL_VALUE_LEN (pi_serial (infos m' pi)) = len \<and>
         SERIAL_DIRTY (pi_serial (infos m' pi)) = 0"
  using assms by (rule Update_final_serial_aux)

theorem Update_final_serial_witness:
  "(case Update ex_store ex_memory ex_pi ''hello'' 5 of
      Inl e \<Rightarrow> None | Inr (r, m') \<Rightarrow> Some (r, pi_serial (infos m' ex_pi))) =
     Some (0, 0x05000002) \<and>
   (0x05000002 :: u32) =
     push_bit 24 5 OR (((pi_serial (infos ex_memory ex_pi) OR 1) + 1) AND 0xffffff) \<and>
   SERIAL_VALUE_LEN (0x05000002 :: u32) = 5 \<and>
   SERIAL_DIRTY (0x05000002 :: u32) = 0"
proof -
  obtain m' where h: "Update ex_store ex_memory ex_pi ''hello'' 5 = Inr (0, m')"
    by (simp add: Update_def ex_defs op_defs)
  have s: "pi_serial (infos m' ex_pi) = 0x05000002"
    using h by (auto simp add: Update_def ex_defs op_defs)
  from Update_final_serial [OF h] show ?thesis using h s by simp
qed

text \<open>
  C1 (Update/Read round trip). After \<open>Update(pi, v, len)\<close> has returned 0 with
  \<open>strlen(v) = len\<close>, a \<open>Read\<close> that runs on the memory \<open>Update\<close> left, into
  a value buffer of more than \<open>len\<close> bytes (and a name buffer, if there is one,
  of at least \<open>PROP_NAME_MAX\<close> bytes), returns \<open>len\<close> and has written exactly
  the bytes of \<open>v\<close> and a NUL at the start of the value buffer.
\<close>

theorem Update_Read_round_trip:
  assumes upd: "Update sp m pi val len = Inr (0, m')"
    and len: "strlen val = unat len"
    and buf: "unat len < length buf"
    and name: "\<forall>nb. name = Some nb \<longrightarrow> PROP_NAME_MAX \<le> length nb"
  shows "Read sp pi name buf (m' # m' # m' # m' # rest) =
     Some (Inr (int (unat len),
       map_option (\<lambda>nb.
          take (min (strlen (pi_name (infos m' pi))) (PROP_NAME_MAX - 1)) (c_str (pi_name (infos m' pi))) @
          NUL # drop (min (strlen (pi_name (infos m' pi))) (PROP_NAME_MAX - 1) + 1) nb) name,
       c_str val @ NUL # drop (unat len + 1) buf))"
proof -
  let ?s = "pi_serial (infos m' pi)"
  from Update_final_serial_aux [OF upd] have s: "SERIAL_VALUE_LEN ?s = len" "SERIAL_DIRTY ?s = 0"
    by blast+
  from Update_success_info [OF upd] obtain v where lt: "unat len < PROP_VALUE_MAX"
    and cp: "strlcpy (pi_value (infos m pi)) val (unat len + 1) = Inr (v, strlen val)"
    and v: "pi_value (infos m' pi) = v"
    by auto
  have l2: "length (c_str val) = unat len" using len by (simp only: strlen_def)
  have mn: "min (strlen val) (unat len) = unat len" using len by simp
  have "strlcpy (pi_value (infos m pi)) val (Suc (unat len)) = Inr (v, strlen val)"
    using cp by simp
  from strlcpy_Inr [OF this]
  have fit: "unat len + 1 \<le> length (pi_value (infos m pi))"
    and v2: "v = take (unat len) (c_str val) @ NUL # drop (unat len + 1) (pi_value (infos m pi))"
    unfolding mn by blast+
  have v3: "v = c_str val @ NUL # drop (unat len + 1) (pi_value (infos m pi))"
    using v2 l2 by simp
  have lv: "unat len + 1 \<le> length v" using v3 fit l2 by simp
  have tk: "take (unat len + 1) v = c_str val @ [NUL]"
    using v3 l2 by simp
  have "copy_value (contexts sp) pi ?s buf m' = Inr (c_str val @ NUL # drop (unat len + 1) buf)"
    using s v lv tk lt buf by (simp add: copy_value_def memcpy_def)
  then have r: "ReadMutablePropertyValue sp pi buf (m' # m' # m' # m' # rest) =
      Some (Inr (?s, c_str val @ NUL # drop (unat len + 1) buf, m' # rest))"
    by (intro ReadMutablePropertyValue_quiet) simp_all
  have ret: "sint (SERIAL_VALUE_LEN ?s) = int (unat len)"
    using sint_value_len [of ?s] unfolding s(1) .
  show ?thesis
  proof (cases name)
    case None
    then show ?thesis using r ret by (simp add: Read_def)
  next
    case (Some nb)
    with name have "PROP_NAME_MAX \<le> length nb" by simp
    then show ?thesis using r ret Some
      by (simp add: Read_def strlcpy_def PROP_NAME_MAX_def Let_def)
  qed
qed

theorem Update_Read_round_trip_witness:
  "strlen ''hello'' = unat (5 :: u32) \<and>
   unat (5 :: u32) < length (replicate 92 (CHR ''x'')) \<and>
   PROP_NAME_MAX \<le> length (replicate 32 (CHR ''y'')) \<and>
   (case Update ex_store ex_memory ex_pi ''hello'' 5 of
      Inl e \<Rightarrow> None
    | Inr (r, m') \<Rightarrow>
        if r = 0
        then Read ex_store ex_pi (Some (replicate 32 (CHR ''y''))) (replicate 92 (CHR ''x''))
               [m', m', m', m']
        else None) =
     Some (Inr (5, Some (''net.dns1'' @ NUL # replicate 23 (CHR ''y'')),
                ''hello'' @ NUL # replicate 86 (CHR ''x'')))"
proof -
  obtain m' where h: "Update ex_store ex_memory ex_pi ''hello'' 5 = Inr (0, m')"
    by (simp add: Update_def ex_defs op_defs)
  have n: "pi_name (infos m' ex_pi) = ''net.dns1''"
    using h by (auto simp add: Update_def ex_defs op_defs)
  have a: "strlen ''hello'' = unat (5 :: u32)" by (simp add: op_defs)
  have b: "unat (5 :: u32) < length (replicate 92 (CHR ''x''))" by simp
  have c: "\<forall>nb. Some (replicate 32 (CHR ''y'')) = Some nb \<longrightarrow> PROP_NAME_MAX \<le> length nb"
    by (simp add: op_defs)
  from Update_Read_round_trip [OF h a b c, of "[]"] show ?thesis
    using h n by (simp add: op_defs)
qed

text \<open>
  C4 (read-only properties cannot be mutated), as stated: \<open>Update\<close> on a PropInfo
  whose name begins with \<open>ro.\<close> returns -1 and leaves serial and value as they
  were. \<open>Update\<close> does not look at the name: on \<open>ro.build.id\<close> it returns 0 and
  replaces the value.
\<close>

theorem Update_read_only_counterexample:
  "is_read_only (pi_name (infos ex_ro_memory ex_ro_pi)) \<and>
   (case Update ex_store ex_ro_memory ex_ro_pi ''XYZ'' 3 of
      Inl e \<Rightarrow> None
    | Inr (r, m') \<Rightarrow> Some (r, pi_serial (infos m' ex_ro_pi), take 4 (pi_value (infos m' ex_ro_pi)))) =
     Some (0, 0x03000002, ''XYZ'' @ [NUL]) \<and>
   pi_serial (infos ex_ro_memory ex_ro_pi) = 0x03000000 \<and>
   take 4 (pi_value (infos ex_ro_memory ex_ro_pi)) = ''ABC'' @ [NUL]"
  by (simp add: Update_def ex_defs ex_ro_defs op_defs is_read_only_def strncmp_def)

text \<open>
  C4, amended: on a PropInfo whose name begins with \<open>ro.\<close>, as on any other,
  \<open>Update\<close> returns -1 and leaves the memory as it was when \<open>len\<close> is at least
  \<open>PROP_VALUE_MAX\<close>, the store is not initialised, there is no serial area or the
  router has no area for the name; otherwise (with buffers of \<open>PROP_VALUE_MAX\<close>
  bytes and the old length within them) it returns 0, having stored the new value
  and the new serial.
\<close>

theorem Update_read_only_unguarded:
  assumes "is_read_only (pi_name (infos m pi))"
  shows "(PROP_VALUE_MAX \<le> unat len \<or> \<not> initialized sp \<or>
          GetSerialPropArea (contexts sp) = None \<or>
          GetPropAreaForName (contexts sp) (pi_name (infos m pi)) = None \<longrightarrow>
            Update sp m pi val len = Inr (- 1, m)) \<and>
         (unat len < PROP_VALUE_MAX \<longrightarrow> initialized sp \<longrightarrow>
          GetSerialPropArea (contexts sp) = Some serial_pa \<longrightarrow>
          GetPropAreaForName (contexts sp) (pi_name (infos m pi)) = Some pa \<longrightarrow>
          length (pi_value (infos m pi)) = PROP_VALUE_MAX \<longrightarrow>
          length (pa_dirty_backup_area (areas m pa)) = PROP_VALUE_MAX \<longrightarrow>
          unat (SERIAL_VALUE_LEN (pi_serial (infos m pi))) < PROP_VALUE_MAX \<longrightarrow>
            (\<exists>m'. Update sp m pi val len = Inr (0, m') \<and>
               pi_serial (infos m' pi) =
                 push_bit 24 len OR (((pi_serial (infos m pi) OR 1) + 1) AND 0xffffff) \<and>
               pi_value (infos m' pi) =
                 take (min (strlen val) (unat len)) (c_str val) @
                 NUL # drop (min (strlen val) (unat len) + 1) (pi_value (infos m pi))))"
  using Update_rejects [of len sp m pi val] Update_succeeds [of len sp serial_pa m pi pa val]
  by blast

theorem Update_read_only_unguarded_witness:
  "is_read_only (pi_name (infos ex_ro_memory ex_ro_pi)) \<and>
   PROP_VALUE_MAX \<le> unat (92 :: u32) \<and>
   Update ex_store ex_ro_memory ex_ro_pi ''XYZ'' 92 = Inr (- 1, ex_ro_memory) \<and>
   unat (3 :: u32) < PROP_VALUE_MAX \<and> initialized ex_store \<and>
   GetSerialPropArea (contexts ex_store) = Some 0 \<and>
   GetPropAreaForName (contexts ex_store) (pi_name (infos ex_ro_memory ex_ro_pi)) = Some 0 \<and>
   length (pi_value (infos ex_ro_memory ex_ro_pi)) = PROP_VALUE_MAX \<and>
   length (pa_dirty_backup_area (areas ex_ro_memory 0)) = PROP_VALUE_MAX \<and>
   unat (SERIAL_VALUE_LEN (pi_serial (infos ex_ro_memory ex_ro_pi))) < PROP_VALUE_MAX \<and>
   (\<exists>m'. Update ex_store ex_ro_memory ex_ro_pi ''XYZ'' 3 = Inr (0, m') \<and>
      pi_serial (infos m' ex_ro_pi) = 0x03000002 \<and>
      pi_value (infos m' ex_ro_pi) = ''XYZ'' @ replicate 89 NUL)"
proof -
  have ro: "is_read_only (pi_name (infos ex_ro_memory ex_ro_pi))"
    by (simp add: ex_defs ex_ro_defs is_read_only_def strncmp_def op_defs)
  have pre: "PROP_VALUE_MAX \<le> unat (92 :: u32)"
    "unat (3 :: u32) < PROP_VALUE_MAX" "initialized ex_store"
    "GetSerialPropArea (contexts ex_store) = Some 0"
    "GetPropAreaForName (contexts ex_store) (pi_name (infos ex_ro_memory ex_ro_pi)) = Some 0"
    "length (pi_value (infos ex_ro_memory ex_ro_pi)) = PROP_VALUE_MAX"
    "length (pa_dirty_backup_area (areas ex_ro_memory 0)) = PROP_VALUE_MAX"
    "unat (SERIAL_VALUE_LEN (pi_serial (infos ex_ro_memory ex_ro_pi))) < PROP_VALUE_MAX"
    by (simp_all add: ex_defs ex_ro_defs op_defs)
  have v: "pi_serial (infos ex_ro_memory ex_ro_pi) = 0x03000000"
    "pi_value (infos ex_ro_memory ex_ro_pi) = ''ABC'' @ replicate 89 NUL"
    by (simp_all add: ex_defs ex_ro_defs)
  from Update_read_only_unguarded [OF ro, where len = 92 and sp = ex_store and val = "''XYZ''"] pre
  have f: "Update ex_store ex_ro_memory ex_ro_pi ''XYZ'' 92 = Inr (- 1, ex_ro_memory)" by blast
  from Update_read_only_unguarded [OF ro, where len = 3 and sp = ex_store and val = "''XYZ''"
      and serial_pa = 0 and pa = 0] pre
  obtain m' where "Update ex_store ex_ro_memory ex_ro_pi ''XYZ'' 3 = Inr (0, m')"
    "pi_serial (infos m' ex_ro_pi) =
       push_bit 24 3 OR (((pi_serial (infos ex_ro_memory ex_ro_pi) OR 1) + 1) AND 0xffffff)"
    "pi_value (infos m' ex_ro_pi) =
       take (min (strlen ''XYZ'') (unat (3 :: u32))) (c_str ''XYZ'') @
       NUL # drop (min (strlen ''XYZ'') (unat (3 :: u32)) + 1) (pi_value (infos ex_ro_memory ex_ro_pi))"
    by blast
  then have "\<exists>m'. Update ex_store ex_ro_memory ex_ro_pi ''XYZ'' 3 = Inr (0, m') \<and>
      pi_serial (infos m' ex_ro_pi) = 0x03000002 \<and>
      pi_value (infos m' ex_ro_pi) = ''XYZ'' @ replicate 89 NUL"
    unfolding v by (simp add: op_defs replicate_Suc [symmetric] del: replicate_Suc)
  with ro pre f show ?thesis by blast
qed

section \<open>Add and the area-serial\<close>

text \<open>
  C7 (Add precondition failures). \<open>Add\<close> returns -1, and leaves the memory as it
  was, when \<open>namelen < 1\<close>, when the store is not initialised, and when
  \<open>valuelen >= PROP_VALUE_MAX\<close> for a name that does not begin with \<open>ro.\<close>. For
  a name that begins with \<open>ro.\<close>, whatever \<open>valuelen\<close>, and for \<open>valuelen =
  PROP_VALUE_MAX - 1\<close>, whatever the name, the length check lets the call through:
  with the other preconditions met, the result is decided by \<open>prop_area::add\<close>.
\<close>

theorem Add_preconditions:
  "(namelen < 1 \<longrightarrow> Add sp m name namelen val valuelen = (- 1, m)) \<and>
   (\<not> initialized sp \<longrightarrow> Add sp m name namelen val valuelen = (- 1, m)) \<and>
   (PROP_VALUE_MAX \<le> unat valuelen \<and> \<not> is_read_only name \<longrightarrow>
      Add sp m name namelen val valuelen = (- 1, m)) \<and>
   (is_read_only name \<or> unat valuelen = PROP_VALUE_MAX - 1 \<longrightarrow>
    1 \<le> namelen \<longrightarrow> initialized sp \<longrightarrow>
    GetSerialPropArea (contexts sp) = Some serial_pa \<longrightarrow>
    GetPropAreaForName (contexts sp) name = Some pa \<longrightarrow>
      Add sp m name namelen val valuelen =
        (case prop_area_add m pa name namelen val valuelen of
           (ret, m1) \<Rightarrow>
             if ret then (0, store_area_serial m1 serial_pa (pa_serial (areas m1 serial_pa) + 1))
             else (- 1, m1)))"
proof (intro conjI impI)
  assume "namelen < 1"
  then show "Add sp m name namelen val valuelen = (- 1, m)" by (intro Add_rejects) simp
next
  assume "\<not> initialized sp"
  then show "Add sp m name namelen val valuelen = (- 1, m)" by (intro Add_rejects) simp
next
  assume "PROP_VALUE_MAX \<le> unat valuelen \<and> \<not> is_read_only name"
  then show "Add sp m name namelen val valuelen = (- 1, m)" by (intro Add_rejects) simp
next
  assume a: "is_read_only name \<or> unat valuelen = PROP_VALUE_MAX - 1"
    and b: "1 \<le> namelen" "initialized sp" "GetSerialPropArea (contexts sp) = Some serial_pa"
      "GetPropAreaForName (contexts sp) name = Some pa"
  from a have "is_read_only name \<or> unat valuelen < PROP_VALUE_MAX"
    by (auto simp: PROP_VALUE_MAX_def)
  from Add_passes [OF this b]
  show "Add sp m name namelen val valuelen =
        (case prop_area_add m pa name namelen val valuelen of
           (ret, m1) \<Rightarrow>
             if ret then (0, store_area_serial m1 serial_pa (pa_serial (areas m1 serial_pa) + 1))
             else (- 1, m1))" .
qed

theorem Add_preconditions_witness:
  "(0 :: u32) < 1 \<and> Add ex_store ex_memory ''a.b'' 0 ''v'' 1 = (- 1, ex_memory) \<and>
   \<not> initialized ex_uninitialized \<and>
   Add ex_uninitialized ex_memory ''a.b'' 3 ''v'' 1 = (- 1, ex_memory) \<and>
   PROP_VALUE_MAX \<le> unat (92 :: u32) \<and> \<not> is_read_only ''a.b'' \<and>
   Add ex_store ex_memory ''a.b'' 3 (replicate 92 (CHR ''v'')) 92 = (- 1, ex_memory) \<and>
   is_read_only ''ro.x'' \<and> (1 :: u32) \<le> 4 \<and> initialized ex_store \<and>
   GetSerialPropArea (contexts ex_store) = Some 0 \<and>
   GetPropAreaForName (contexts ex_store) ''ro.x'' = Some 0 \<and>
   fst (Add ex_store ex_memory ''ro.x'' 4 (replicate 200 (CHR ''v'')) 200) = 0 \<and>
   unat (91 :: u32) = PROP_VALUE_MAX - 1 \<and> (1 :: u32) \<le> 3 \<and>
   GetPropAreaForName (contexts ex_store) ''a.b'' = Some 0 \<and>
   fst (Add ex_store ex_memory ''a.b'' 3 (replicate 91 (CHR ''v'')) 91) = 0"
proof -
  have pre: "(0 :: u32) < 1" "\<not> initialized ex_uninitialized"
    "PROP_VALUE_MAX \<le> unat (92 :: u32)" "\<not> is_read_only ''a.b''"
    "is_read_only ''ro.x''" "(1 :: u32) \<le> 4" "initialized ex_store"
    "GetSerialPropArea (contexts ex_store) = Some 0"
    "GetPropAreaForName (contexts ex_store) ''ro.x'' = Some 0"
    "unat (91 :: u32) = PROP_VALUE_MAX - 1" "(1 :: u32) \<le> 3"
    "GetPropAreaForName (contexts ex_store) ''a.b'' = Some 0"
    by (simp_all add: ex_defs op_defs is_read_only_def strncmp_def)
  have room: "fst (prop_area_add ex_memory 0 ''ro.x'' 4 (replicate 200 (CHR ''v'')) 200)"
    "fst (prop_area_add ex_memory 0 ''a.b'' 3 (replicate 91 (CHR ''v'')) 91)"
    by (simp_all add: prop_area_add_def record_size_def ex_defs op_defs)
  from Add_preconditions [of 0 ex_store ex_memory "''a.b''" "''v''" 1] pre
  have 1: "Add ex_store ex_memory ''a.b'' 0 ''v'' 1 = (- 1, ex_memory)" by blast
  from Add_preconditions [of 3 ex_uninitialized ex_memory "''a.b''" "''v''" 1] pre
  have 2: "Add ex_uninitialized ex_memory ''a.b'' 3 ''v'' 1 = (- 1, ex_memory)" by blast
  from Add_preconditions [of 3 ex_store ex_memory "''a.b''" "replicate 92 (CHR ''v'')" 92] pre
  have 3: "Add ex_store ex_memory ''a.b'' 3 (replicate 92 (CHR ''v'')) 92 = (- 1, ex_memory)"
    by blast
  from Add_preconditions [of 4 ex_store ex_memory "''ro.x''" "replicate 200 (CHR ''v'')" 200 0 0]
    pre room
  have 4: "fst (Add ex_store ex_memory ''ro.x'' 4 (replicate 200 (CHR ''v'')) 200) = 0"
    by (simp split: prod.splits)
  from Add_preconditions [of 3 ex_store ex_memory "''a.b''" "replicate 91 (CHR ''v'')" 91 0 0]
    pre room
  have 5: "fst (Add ex_store ex_memory ''a.b'' 3 (replicate 91 (CHR ''v'')) 91) = 0"
    by (simp split: prod.splits)
  from pre 1 2 3 4 5 show ?thesis by simp
qed

text \<open>
  C6 (area-serial monotonicity), as stated: every successful \<open>Add\<close> or \<open>Update\<close>
  strictly increases the 32-bit area-serial. At \<open>0xFFFFFFFF\<close> the increment
  wraps around to 0.
\<close>

theorem area_serial_advance_counterexample:
  "GetSerialPropArea (contexts ex_store) = Some 0 \<and>
   pa_serial (areas ex_wrap_memory 0) = 0xFFFFFFFF \<and>
   (case Update ex_store ex_wrap_memory ex_pi ''hello'' 5 of
      Inl e \<Rightarrow> None | Inr (r, m') \<Rightarrow> Some (r, pa_serial (areas m' 0))) = Some (0, 0) \<and>
   \<not> (0xFFFFFFFF :: u32) < 0"
  by (simp add: Update_def ex_wrap_memory_def ex_defs op_defs)

text \<open>
  C6, amended: an \<open>Add\<close> or \<open>Update\<close> that returns 0 adds 1 to the area-serial
  of the serial area, modulo \<open>2^32\<close>, and one that returns -1 leaves it as it
  was. A sequence of operations adds the number of its successes, modulo \<open>2^32\<close>:
  as long as that sum stays below \<open>2^32\<close> the area-serial does not decrease, and
  it increases when one operation succeeds.
\<close>

theorem area_serial_advance:
  assumes "GetSerialPropArea (contexts sp) = Some spa"
  shows "(apply_op sp m x = Inr (r, m1) \<longrightarrow>
            r = 0 \<and> pa_serial (areas m1 spa) = pa_serial (areas m spa) + 1 \<or>
            r = - 1 \<and> pa_serial (areas m1 spa) = pa_serial (areas m spa)) \<and>
         (run_ops sp m ops = Inr (rs, m') \<longrightarrow>
            pa_serial (areas m' spa) = pa_serial (areas m spa) + of_nat (count_list rs 0) \<and>
            (unat (pa_serial (areas m spa)) + count_list rs 0 < 2 ^ 32 \<longrightarrow>
               pa_serial (areas m spa) \<le> pa_serial (areas m' spa) \<and>
               (0 \<in> set rs \<longrightarrow> pa_serial (areas m spa) < pa_serial (areas m' spa))))"
proof (intro conjI impI)
  assume "apply_op sp m x = Inr (r, m1)"
  from apply_op_area_serial [OF assms this]
  show "r = 0 \<and> pa_serial (areas m1 spa) = pa_serial (areas m spa) + 1 \<or>
        r = - 1 \<and> pa_serial (areas m1 spa) = pa_serial (areas m spa)" .
next
  assume run: "run_ops sp m ops = Inr (rs, m')"
  from run_ops_area_serial [OF assms run]
  show eq: "pa_serial (areas m' spa) = pa_serial (areas m spa) + of_nat (count_list rs 0)"
    by simp
  assume small: "unat (pa_serial (areas m spa)) + count_list rs 0 < 2 ^ 32"
  from word_add_of_nat_le(1) [OF small] eq
  show "pa_serial (areas m spa) \<le> pa_serial (areas m' spa)" by simp
  assume "0 \<in> set rs"
  then have "count_list rs 0 \<noteq> 0" by (simp add: count_list_0_iff)
  then have "0 < count_list rs 0" by simp
  from word_add_of_nat_le(2) [OF small this] eq
  show "pa_serial (areas m spa) < pa_serial (areas m' spa)" by simp
qed

theorem area_serial_advance_witness:
  "GetSerialPropArea (contexts ex_store) = Some 0 \<and>
   (case apply_op ex_store ex_memory (OpUpdate ex_pi ''hello'' 5) of
      Inl e \<Rightarrow> None | Inr (r, m1) \<Rightarrow> Some (r, pa_serial (areas m1 0))) =
     Some (0, pa_serial (areas ex_memory 0) + 1) \<and>
   (case run_ops ex_store ex_memory
           [OpAdd ''a.b'' 3 ''v'' 1, OpUpdate ex_pi ''hello'' 92, OpUpdate ex_pi ''hello'' 5] of
      Inl e \<Rightarrow> None | Inr (rs, m') \<Rightarrow> Some (rs, pa_serial (areas m' 0))) =
     Some ([0, - 1, 0], 9) \<and>
   pa_serial (areas ex_memory 0) = 7 \<and>
   unat (7 :: u32) + count_list [0, - 1, 0 :: int] 0 < 2 ^ 32 \<and>
   (7 :: u32) < 9"
proof -
  have sa: "GetSerialPropArea (contexts ex_store) = Some 0" by (simp add: ex_defs)
  obtain m1 where s1: "apply_op ex_store ex_memory (OpUpdate ex_pi ''hello'' 5) = Inr (0, m1)"
    by (simp add: Update_def ex_defs op_defs)
  obtain m' where r: "run_ops ex_store ex_memory
           [OpAdd ''a.b'' 3 ''v'' 1, OpUpdate ex_pi ''hello'' 92, OpUpdate ex_pi ''hello'' 5] =
         Inr ([0, - 1, 0], m')"
    by (simp add: Update_def add_defs store_defs ex_defs op_defs)
  from area_serial_advance [OF sa, of ex_memory "OpUpdate ex_pi ''hello'' 5" 0 m1
      "[OpAdd ''a.b'' 3 ''v'' 1, OpUpdate ex_pi ''hello'' 92, OpUpdate ex_pi ''hello'' 5]"
      "[0, - 1, 0]" m'] s1 r
  have "pa_serial (areas m1 0) = pa_serial (areas ex_memory 0) + 1"
    and "pa_serial (areas m' 0) = pa_serial (areas ex_memory 0) + of_nat (count_list [0, - 1, 0 :: int] 0)"
    by simp_all
  moreover have "pa_serial (areas ex_memory 0) = 7" by (simp add: ex_defs)
  ultimately show ?thesis using sa s1 r by simp
qed

section \<open>Wait\<close>

text \<open>
  C8 (Wait return contract): whenever \<open>Wait\<close> returns true it has stored a serial
  that differs from \<open>old_serial\<close>, also with \<open>pi\<close> null on a store that is not
  initialised or has no serial area. There the code leaves through \<open>return -1\<close>,
  which is \<open>true\<close> for the \<open>bool\<close> the function returns, and nothing has been
  stored: the caller's variable still holds what it held, here \<open>old_serial\<close>
  itself, and \<open>WaitAny\<close> returns its uninitialised local.
\<close>

theorem Wait_uninitialized_returns_true:
  "Wait ex_uninitialized None 7 7 [] = Some (True, 7) \<and>
   Wait (ex_store\<lparr>contexts := ex_no_serial_area\<rparr>) None 7 7 [] = Some (True, 7) \<and>
   WaitAny ex_uninitialized 7 7 [] = Some 7"
  by (simp add: Wait_def WaitAny_def c_bool_def ex_defs ex_no_serial_area_def)

section \<open>ReadCallback\<close>

text \<open>
  C9 (uid-conditional value substitution). For a uid in \<open>[10000, 19999]\<close> or
  \<open>[90000, 99999]\<close> and a property named \<open>init.svc.adbd\<close>, \<open>sys.usb.configfs\<close>,
  \<open>persist.sys.usb.config\<close>, \<open>sys.usb.config\<close> or \<open>sys.usb.state\<close>, the
  caller's callback receives \<open>stopped\<close>, \<open>0\<close> or \<open>none\<close> in place of the value
  that was read, with the serial that was read. For any other uid or name it
  receives the stored value and its serial: read in place for a read-only
  property, through \<open>ReadMutablePropertyValue\<close> otherwise.
\<close>

theorem ReadCallback_substitution:
  "((10000 \<le> uid \<and> uid \<le> 19999) \<or> (90000 \<le> uid \<and> uid \<le> 99999) \<longrightarrow>
    c_str (pi_name (infos m pi)) \<in>
      {''init.svc.adbd'', ''sys.usb.configfs'', ''persist.sys.usb.config'',
       ''sys.usb.config'', ''sys.usb.state''} \<longrightarrow>
    ReadCallback sp uid pi value_buf (m # rest) =
      (case ReadMutablePropertyValue sp pi value_buf rest of
         None \<Rightarrow> None
       | Some (Inl e) \<Rightarrow> Some (Inl e)
       | Some (Inr (serial, buf', _)) \<Rightarrow>
           Some (Inr (pi_name (infos m pi),
             (if c_str (pi_name (infos m pi)) = ''init.svc.adbd'' then ''stopped''
              else if c_str (pi_name (infos m pi)) = ''sys.usb.configfs'' then ''0''
              else ''none''),
             serial)))) \<and>
   (\<not> ((10000 \<le> uid \<and> uid \<le> 19999) \<or> (90000 \<le> uid \<and> uid \<le> 99999)) \<or>
    c_str (pi_name (infos m pi)) \<notin>
      {''init.svc.adbd'', ''sys.usb.configfs'', ''persist.sys.usb.config'',
       ''sys.usb.config'', ''sys.usb.state''} \<longrightarrow>
    ReadCallback sp uid pi value_buf (m # rest) =
      (if is_read_only (pi_name (infos m pi))
       then Some (Inr (pi_name (infos m pi),
              (if pi_is_long (infos m pi) then pi_long_value (infos m pi)
               else pi_value (infos m pi)),
              pi_serial (infos m pi)))
       else
         (case ReadMutablePropertyValue sp pi value_buf rest of
            None \<Rightarrow> None
          | Some (Inl e) \<Rightarrow> Some (Inl e)
          | Some (Inr (serial, buf', _)) \<Rightarrow> Some (Inr (pi_name (infos m pi), buf', serial)))))"
proof (intro conjI impI)
  let ?name = "pi_name (infos m pi)"
  assume uid: "(10000 \<le> uid \<and> uid \<le> 19999) \<or> (90000 \<le> uid \<and> uid \<le> 99999)"
    and five: "c_str ?name \<in> {''init.svc.adbd'', ''sys.usb.configfs'', ''persist.sys.usb.config'',
       ''sys.usb.config'', ''sys.usb.state''}"
  from not_read_only [OF five] have ro: "\<not> is_read_only ?name" .
  have cb: "\<And>v s. callback uid ?name v s =
      (?name, (if c_str ?name = ''init.svc.adbd'' then ''stopped''
              else if c_str ?name = ''sys.usb.configfs'' then ''0''
              else ''none''), s)"
    using five by (auto simp: in_range_callback [OF uid])
  show "ReadCallback sp uid pi value_buf (m # rest) =
      (case ReadMutablePropertyValue sp pi value_buf rest of
         None \<Rightarrow> None
       | Some (Inl e) \<Rightarrow> Some (Inl e)
       | Some (Inr (serial, buf', _)) \<Rightarrow>
           Some (Inr (?name,
             (if c_str ?name = ''init.svc.adbd'' then ''stopped''
              else if c_str ?name = ''sys.usb.configfs'' then ''0''
              else ''none''),
             serial)))"
    using ro by (simp add: ReadCallback_def cb split: option.splits sum.splits prod.splits)
next
  let ?name = "pi_name (infos m pi)"
  assume "\<not> ((10000 \<le> uid \<and> uid \<le> 19999) \<or> (90000 \<le> uid \<and> uid \<le> 99999)) \<or>
    c_str ?name \<notin> {''init.svc.adbd'', ''sys.usb.configfs'', ''persist.sys.usb.config'',
       ''sys.usb.config'', ''sys.usb.state''}"
  then have cb: "\<And>v s. callback uid ?name v s = (?name, v, s)"
  proof
    assume "\<not> ((10000 \<le> uid \<and> uid \<le> 19999) \<or> (90000 \<le> uid \<and> uid \<le> 99999))"
    then show "\<And>v s. callback uid ?name v s = (?name, v, s)"
      by (rule out_of_range_callback)
  next
    assume other: "c_str ?name \<notin> {''init.svc.adbd'', ''sys.usb.configfs'',
       ''persist.sys.usb.config'', ''sys.usb.config'', ''sys.usb.state''}"
    show "\<And>v s. callback uid ?name v s = (?name, v, s)"
    proof (cases "(10000 \<le> uid \<and> uid \<le> 19999) \<or> (90000 \<le> uid \<and> uid \<le> 99999)")
      case True
      fix v s show "callback uid ?name v s = (?name, v, s)"
        using other in_range_callback [OF True, of ?name v s] by auto
    next
      case False
      fix v s show "callback uid ?name v s = (?name, v, s)"
        using False by (rule out_of_range_callback)
    qed
  qed
  show "ReadCallback sp uid pi value_buf (m # rest) =
      (if is_read_only ?name
       then Some (Inr (?name,
              (if pi_is_long (infos m pi) then pi_long_value (infos m pi)
               else pi_value (infos m pi)),
              pi_serial (infos m pi)))
       else
         (case ReadMutablePropertyValue sp pi value_buf rest of
            None \<Rightarrow> None
          | Some (Inl e) \<Rightarrow> Some (Inl e)
          | Some (Inr (serial, buf', _)) \<Rightarrow> Some (Inr (?name, buf', serial))))"
    by (simp add: ReadCallback_def cb Let_def split: option.splits sum.splits prod.splits)
qed

theorem ReadCallback_substitution_witness:
  "(10000 \<le> (10050 :: int) \<and> (10050 :: int) \<le> 19999) \<and>
   c_str (pi_name (infos ex_adbd_memory ex_pi)) = ''init.svc.adbd'' \<and>
   ReadCallback ex_store 10050 ex_pi (replicate 92 NUL)
     [ex_adbd_memory, ex_adbd_memory, ex_adbd_memory, ex_adbd_memory] =
     Some (Inr (''init.svc.adbd'', ''stopped'', 0x07000000)) \<and>
   ReadCallback ex_store 0 ex_pi (replicate 92 NUL)
     [ex_adbd_memory, ex_adbd_memory, ex_adbd_memory, ex_adbd_memory] =
     Some (Inr (''init.svc.adbd'', ''running'' @ NUL # replicate 84 NUL, 0x07000000)) \<and>
   c_str (pi_name (infos ex_memory ex_pi)) = ''net.dns1'' \<and>
   ReadCallback ex_store 10050 ex_pi (replicate 92 NUL)
     [ex_memory, ex_memory, ex_memory, ex_memory] =
     Some (Inr (''net.dns1'', ''8.8.8.8'' @ NUL # replicate 84 NUL, 0x07000000))"
proof -
  have names: "c_str (pi_name (infos ex_adbd_memory ex_pi)) = ''init.svc.adbd''"
    "c_str (pi_name (infos ex_memory ex_pi)) = ''net.dns1''"
    "pi_name (infos ex_adbd_memory ex_pi) = ''init.svc.adbd''"
    "pi_name (infos ex_memory ex_pi) = ''net.dns1''"
    "\<not> is_read_only ''init.svc.adbd''" "\<not> is_read_only ''net.dns1''"
    by (simp_all add: ex_adbd_memory_def ex_defs op_defs is_read_only_def strncmp_def)
  have reads:
    "ReadMutablePropertyValue ex_store ex_pi (replicate 92 NUL)
       [ex_adbd_memory, ex_adbd_memory, ex_adbd_memory] =
     Some (Inr (0x07000000, ''running'' @ NUL # replicate 84 NUL, []))"
    "ReadMutablePropertyValue ex_store ex_pi (replicate 92 NUL)
       [ex_memory, ex_memory, ex_memory] =
     Some (Inr (0x07000000, ''8.8.8.8'' @ NUL # replicate 84 NUL, []))"
    by (simp_all add: ReadMutablePropertyValue_def ex_adbd_memory_def ex_defs op_defs)
  from ReadCallback_substitution [of 10050 ex_adbd_memory ex_pi ex_store "replicate 92 NUL"
      "[ex_adbd_memory, ex_adbd_memory, ex_adbd_memory]"] names reads
  have 1: "ReadCallback ex_store 10050 ex_pi (replicate 92 NUL)
     [ex_adbd_memory, ex_adbd_memory, ex_adbd_memory, ex_adbd_memory] =
     Some (Inr (''init.svc.adbd'', ''stopped'', 0x07000000))" by simp
  from ReadCallback_substitution [of 0 ex_adbd_memory ex_pi ex_store "replicate 92 NUL"
      "[ex_adbd_memory, ex_adbd_memory, ex_adbd_memory]"] names reads
  have 2: "ReadCallback ex_store 0 ex_pi (replicate 92 NUL)
     [ex_adbd_memory, ex_adbd_memory, ex_adbd_memory, ex_adbd_memory] =
     Some (Inr (''init.svc.adbd'', ''running'' @ NUL # replicate 84 NUL, 0x07000000))" by simp
  from ReadCallback_substitution [of 10050 ex_memory ex_pi ex_store "replicate 92 NUL"
      "[ex_memory, ex_memory, ex_memory]"] names reads
  have 3: "ReadCallback ex_store 10050 ex_pi (replicate 92 NUL)
     [ex_memory, ex_memory, ex_memory, ex_memory] =
     Some (Inr (''net.dns1'', ''8.8.8.8'' @ NUL # replicate 84 NUL, 0x07000000))" by simp
  from names 1 2 3 show ?thesis by simp
qed

end
